theory Spec2Isabelle
  imports Complex_Main "HOL-Library.Word" "HOL-Library.Product_Lexorder" "HOL-Library.Multiset"
begin

section \<open>Mini Cloud-Drive: the file-catalog service\<close>

text \<open>
  A shallow embedding of \<^verbatim>\<open>file_storage.py\<close> (class \<^verbatim>\<open>FileStorageManager\<close>) and of
  \<^verbatim>\<open>firebase_config.py\<close>. The two Firebase clients are third-party code: they are
  modelled as a small state machine (a bucket of blobs, one collection of documents)
  with an injectable fault for every client call, after the interface the specification
  lists for them. Every call a client receives is appended to a log, so that the order
  and the absence of calls can be stated. What the functions write with \<^verbatim>\<open>print\<close> is
  not part of the state.
\<close>

subsection \<open>Data\<close>

type_synonym bytes = "8 word list"

text \<open>\<^verbatim>\<open>datetime\<close>: the fields of a naive Python datetime.\<close>

record datetime =
  year :: nat
  month :: nat
  day :: nat
  hour :: nat
  minute :: nat
  second :: nat
  microsecond :: nat

text \<open>Datetimes compare field by field, the most significant first.\<close>

definition dt_key :: "datetime \<Rightarrow> nat \<times> nat \<times> nat \<times> nat \<times> nat \<times> nat \<times> nat" where
  "dt_key t = (year t, month t, day t, hour t, minute t, second t, microsecond t)"

text \<open>
  The Streamlit \<^verbatim>\<open>UploadedFile\<close> as \<^verbatim>\<open>upload_file\<close> reads it: the attributes
  \<^verbatim>\<open>name\<close>, \<^verbatim>\<open>type\<close>, \<^verbatim>\<open>size\<close> and the result of \<^verbatim>\<open>getvalue()\<close>. They are four separate
  reads of the object, so they are four fields here.
\<close>

record uploaded_file =
  uf_name :: string
  uf_type :: "string option"
  uf_size :: int
  uf_getvalue :: bytes

text \<open>
  What the key \<^verbatim>\<open>size_bytes\<close> of a document may hold: an integer, which is what
  \<^verbatim>\<open>upload_file\<close> stores, or, in a document that reached the collection otherwise,
  null or text. Floats and booleans under that key are outside the model.
\<close>

datatype py_value = PyInt int | PyNone | PyStr string

datatype py_error = TypeError | OverflowError

text \<open>
  The metadata dictionary built by \<^verbatim>\<open>upload_file\<close>, which is also the dictionary that
  \<^verbatim>\<open>doc.to_dict()\<close> returns. Its nine keys are fixed, so it is a record.
  \<^verbatim>\<open>size_bytes\<close> is optional because \<^verbatim>\<open>get_storage_stats\<close> reads it with
  \<^verbatim>\<open>f.get('size_bytes', 0)\<close>: \<open>None\<close> is a dictionary without the key.
  \<^verbatim>\<open>mime_type\<close> is optional because the uploaded file's type may be \<^verbatim>\<open>None\<close>.
  \<^verbatim>\<open>size_mb\<close> is the decimal value of the rounded float.
\<close>

record metadata =
  original_name :: string
  stored_name :: string
  size_bytes :: "py_value option"
  size_mb :: rat
  mime_type :: "string option"
  storage_path :: string
  download_url :: string
  uploaded_at :: datetime
  file_extension :: string

text \<open>A listed file: the stored dictionary with the key \<^verbatim>\<open>'id'\<close> added.\<close>

record file_data = metadata +
  doc_id :: string

record blob =
  content :: bytes
  content_type :: "string option"
  public :: bool

text \<open>The calls the two store clients receive.\<close>

datatype store_call =
    BlobUpload string
  | BlobMakePublic string
  | BlobPublicUrl string
  | BlobDelete string
  | DocSet string
  | DocDelete string
  | DocStream

text \<open>
  The state the service runs against: the bucket, the collection \<^verbatim>\<open>'files'\<close> (documents
  in insertion order, keyed by id), the call log, the injected faults (the message of
  the exception a call raises, if it is to raise one), the wall clock (the value of the
  n-th reading of \<^verbatim>\<open>datetime.now()\<close>), the source of automatic document ids and the
  bucket's URL scheme.
\<close>

record world =
  blobs :: "string \<rightharpoonup> blob"
  docs :: "(string \<times> metadata) list"
  calls :: "store_call list"
  fault :: "store_call \<Rightarrow> string option"
  clock :: "nat \<Rightarrow> datetime"
  ticks :: nat
  auto_id :: "nat \<Rightarrow> string"
  ids_drawn :: nat
  url_of :: "string \<Rightarrow> string"

datatype upload_result =
    UploadSuccess metadata string
  | UploadFailure string

datatype delete_result =
    DeleteSuccess string
  | DeleteFailure string

record storage_stats =
  total_files :: nat
  total_size_bytes :: int
  total_size_mb :: rat

subsection \<open>Standard-library functions\<close>

definition MAX_FILE_SIZE_MB :: int where
  "MAX_FILE_SIZE_MB = 10"

definition MAX_FILE_SIZE_BYTES :: int where
  "MAX_FILE_SIZE_BYTES = MAX_FILE_SIZE_MB * 1024 * 1024"

definition digit :: "nat \<Rightarrow> char" where
  "digit n = ''0123456789'' ! (n mod 10)"

definition pad2 :: "nat \<Rightarrow> string" where
  "pad2 n = [digit (n div 10), digit n]"

definition pad4 :: "nat \<Rightarrow> string" where
  "pad4 n = [digit (n div 1000), digit (n div 100), digit (n div 10), digit n]"

text \<open>\<^verbatim>\<open>strftime('%Y%m%d_%H%M%S')\<close>, for the years 1000 to 9999.\<close>

definition strftime :: "datetime \<Rightarrow> string" where
  "strftime t = pad4 (year t) @ pad2 (month t) @ pad2 (day t) @ ''_''
     @ pad2 (hour t) @ pad2 (minute t) @ pad2 (second t)"

text \<open>\<^verbatim>\<open>str.rfind\<close> for a single character: the last index, or -1.\<close>

fun rfind_from :: "string \<Rightarrow> char \<Rightarrow> nat \<Rightarrow> int" where
  "rfind_from p c 0 = -1"
| "rfind_from p c (Suc i) = (if p ! i = c then int i else rfind_from p c i)"

definition rfind :: "string \<Rightarrow> char \<Rightarrow> int" where
  "rfind p c = rfind_from p c (length p)"

text \<open>
  \<^verbatim>\<open>os.path.splitext\<close> (\<^verbatim>\<open>posixpath\<close>, through \<^verbatim>\<open>genericpath._splitext\<close>): the
  extension starts at the last dot, if that dot comes after the last separator and
  after a character of the final component that is not a dot. The loop that skips the
  leading dots is \<open>skip_dots\<close>: it answers whether the split happens.
\<close>

function skip_dots :: "string \<Rightarrow> nat \<Rightarrow> nat \<Rightarrow> bool" where
  "skip_dots p filenameIndex dotIndex =
     (if filenameIndex < dotIndex
      then (if p ! filenameIndex \<noteq> CHR ''.'' then True
            else skip_dots p (filenameIndex + 1) dotIndex)
      else False)"
  by pat_completeness auto
termination
  by (relation "measure (\<lambda>(p, i, d). d - i)") auto

definition splitext :: "string \<Rightarrow> string \<times> string" where
  "splitext p =
     (let sepIndex = rfind p CHR ''/'';
          dotIndex = rfind p CHR ''.''
      in if dotIndex > sepIndex \<and> skip_dots p (nat (sepIndex + 1)) (nat dotIndex)
         then (take (nat dotIndex) p, drop (nat dotIndex) p)
         else (p, []))"

text \<open>
  \<^verbatim>\<open>round(x, 2)\<close> on a float whose value is the rational \<open>x\<close>: Python rounds the exact
  value to the nearest multiple of 1/100, a tie going to the even multiple, and returns
  the float nearest to that decimal. The decimal is what the model keeps.
\<close>

definition round_half_even :: "rat \<Rightarrow> int" where
  "round_half_even x =
     (let f = \<lfloor>x\<rfloor>; d = x - of_int f
      in if d < 1 / 2 then f
         else if d > 1 / 2 then f + 1
         else if even f then f else f + 1)"

definition py_round2 :: "rat \<Rightarrow> rat" where
  "py_round2 x = of_int (round_half_even (x * 100)) / 100"

text \<open>
  \<^verbatim>\<open>n / (1024 * 1024)\<close> on an integer: a division by a power of two, exact in double
  precision for every \<open>n\<close> of magnitude below \<open>2 ^ 53\<close>. This is the quotient of
  \<^verbatim>\<open>upload_file\<close>, whose \<open>n\<close> is the size of a file that has passed the size check; the
  total of \<^verbatim>\<open>get_storage_stats\<close> has no bound and goes through \<open>true_divide_mb\<close> below.
\<close>

definition bytes_to_mb :: "int \<Rightarrow> rat" where
  "bytes_to_mb n = of_int n / (1024 * 1024)"

text \<open>\<^verbatim>\<open>int.bit_length\<close> of a natural number.\<close>

fun bit_length :: "nat \<Rightarrow> nat" where
  "bit_length n = (if n = 0 then 0 else Suc (bit_length (n div 2)))"

declare bit_length.simps [simp del]

text \<open>
  The double nearest to an integer: the integer rounded to 53 significant bits, a tie
  going to the even mantissa.
\<close>

definition round_to_53 :: "int \<Rightarrow> int" where
  "round_to_53 n =
     (let a = \<bar>n\<bar>;
          s = bit_length (nat a) - 53;
          q = a div 2 ^ s;
          r = a mod 2 ^ s;
          m = (if 2 * r < 2 ^ s then q
               else if 2 * r > 2 ^ s then q + 1
               else if even q then q else q + 1)
      in sgn n * (m * 2 ^ s))"

text \<open>
  \<^verbatim>\<open>n / (1024 * 1024)\<close> on an integer of any size: Python returns the double nearest to
  the quotient, which is the double nearest to \<open>n\<close> scaled by a power of two, and raises
  \<^verbatim>\<open>OverflowError\<close> when that is beyond the largest double.
\<close>

definition float_overflow :: "int \<Rightarrow> bool" where
  "float_overflow n = (\<bar>of_int (round_to_53 n) / (1024 * 1024) :: rat\<bar> \<ge> 2 ^ 1024)"

definition true_divide_mb :: "int \<Rightarrow> py_error + rat" where
  "true_divide_mb n =
     (if float_overflow n then Inl OverflowError
      else Inr (of_int (round_to_53 n) / (1024 * 1024)))"

text \<open>
  \<^verbatim>\<open>sum\<close> over the values read from the documents, starting from 0: adding null or
  text to an integer raises \<^verbatim>\<open>TypeError\<close>.
\<close>

fun py_sum :: "int \<Rightarrow> py_value list \<Rightarrow> py_error + int" where
  "py_sum acc [] = Inr acc"
| "py_sum acc (PyInt b # vs) = py_sum (acc + b) vs"
| "py_sum acc (v # vs) = Inl TypeError"

subsection \<open>The store clients\<close>

text \<open>
  Each client call is logged, then raises the injected fault if there is one, and
  otherwise has its effect. A call that raises changes nothing but the log.
\<close>

definition log_call :: "store_call \<Rightarrow> world \<Rightarrow> world" where
  "log_call c w = w\<lparr>calls := calls w @ [c]\<rparr>"

definition now :: "world \<Rightarrow> datetime \<times> world" where
  "now w = (clock w (ticks w), w\<lparr>ticks := ticks w + 1\<rparr>)"

definition blob_upload_from_string ::
    "string \<Rightarrow> bytes \<Rightarrow> string option \<Rightarrow> world \<Rightarrow> (string + unit) \<times> world" where
  "blob_upload_from_string path data ctype w =
     (let w1 = log_call (BlobUpload path) w
      in case fault w (BlobUpload path) of
           Some e \<Rightarrow> (Inl e, w1)
         | None \<Rightarrow> (Inr (), w1\<lparr>blobs := (blobs w1)(path \<mapsto>
                      \<lparr>content = data, content_type = ctype, public = False\<rparr>)\<rparr>))"

definition blob_make_public :: "string \<Rightarrow> world \<Rightarrow> (string + unit) \<times> world" where
  "blob_make_public path w =
     (let w1 = log_call (BlobMakePublic path) w
      in case fault w (BlobMakePublic path) of
           Some e \<Rightarrow> (Inl e, w1)
         | None \<Rightarrow>
             (case blobs w1 path of
                None \<Rightarrow> (Inl ''404 No such object'', w1)
              | Some b \<Rightarrow> (Inr (), w1\<lparr>blobs := (blobs w1)(path \<mapsto> b\<lparr>public := True\<rparr>)\<rparr>)))"

text \<open>
  \<^verbatim>\<open>blob.public_url\<close> is a property that the client computes from the bucket and the
  path. It is logged and given a fault like the calls, so that a failing URL issuance
  is a case of the model.
\<close>

definition blob_public_url :: "string \<Rightarrow> world \<Rightarrow> (string + string) \<times> world" where
  "blob_public_url path w =
     (let w1 = log_call (BlobPublicUrl path) w
      in case fault w (BlobPublicUrl path) of
           Some e \<Rightarrow> (Inl e, w1)
         | None \<Rightarrow> (Inr (url_of w path), w1))"

text \<open>Deleting a blob that is not in the bucket raises \<^verbatim>\<open>NotFound\<close>.\<close>

definition blob_delete :: "string \<Rightarrow> world \<Rightarrow> (string + unit) \<times> world" where
  "blob_delete path w =
     (let w1 = log_call (BlobDelete path) w
      in case fault w (BlobDelete path) of
           Some e \<Rightarrow> (Inl e, w1)
         | None \<Rightarrow>
             (case blobs w1 path of
                None \<Rightarrow> (Inl ''404 No such object'', w1)
              | Some b \<Rightarrow> (Inr (), w1\<lparr>blobs := (blobs w1)(path := None)\<rparr>)))"

text \<open>\<^verbatim>\<open>collection.document()\<close>: a new reference with an automatic id; no call is made.\<close>

definition new_document :: "world \<Rightarrow> string \<times> world" where
  "new_document w = (auto_id w (ids_drawn w), w\<lparr>ids_drawn := ids_drawn w + 1\<rparr>)"

text \<open>\<^verbatim>\<open>doc_ref.set(data)\<close>: writes the document, replacing one of the same id.\<close>

fun set_doc :: "string \<Rightarrow> metadata \<Rightarrow> (string \<times> metadata) list \<Rightarrow> (string \<times> metadata) list" where
  "set_doc i m [] = [(i, m)]"
| "set_doc i m (d # ds) = (if fst d = i then (i, m) # ds else d # set_doc i m ds)"

definition doc_set :: "string \<Rightarrow> metadata \<Rightarrow> world \<Rightarrow> (string + unit) \<times> world" where
  "doc_set i m w =
     (let w1 = log_call (DocSet i) w
      in case fault w (DocSet i) of
           Some e \<Rightarrow> (Inl e, w1)
         | None \<Rightarrow> (Inr (), w1\<lparr>docs := set_doc i m (docs w1)\<rparr>))"

text \<open>\<^verbatim>\<open>document(id).delete()\<close>: succeeds whether or not the document exists.\<close>

definition doc_delete :: "string \<Rightarrow> world \<Rightarrow> (string + unit) \<times> world" where
  "doc_delete i w =
     (let w1 = log_call (DocDelete i) w
      in case fault w (DocDelete i) of
           Some e \<Rightarrow> (Inl e, w1)
         | None \<Rightarrow> (Inr (), w1\<lparr>docs := filter (\<lambda>d. fst d \<noteq> i) (docs w1)\<rparr>))"

text \<open>
  \<^verbatim>\<open>order_by('uploaded_at', direction=DESCENDING).stream()\<close>: the documents of the
  collection, the latest \<^verbatim>\<open>uploaded_at\<close> first. The sort is the store's. A stream that
  raises does so for the whole loop of \<^verbatim>\<open>get_all_files\<close>, which then drops what it had
  collected.
\<close>

definition order_by_uploaded_at_desc :: "(string \<times> metadata) list \<Rightarrow> (string \<times> metadata) list" where
  "order_by_uploaded_at_desc ds = rev (sort_key (\<lambda>d. dt_key (uploaded_at (snd d))) ds)"

definition doc_stream :: "world \<Rightarrow> (string + (string \<times> metadata) list) \<times> world" where
  "doc_stream w =
     (let w1 = log_call DocStream w
      in case fault w DocStream of
           Some e \<Rightarrow> (Inl e, w1)
         | None \<Rightarrow> (Inr (order_by_uploaded_at_desc (docs w1)), w1))"

subsection \<open>FileStorageManager\<close>

text \<open>
  Sequencing inside a \<^verbatim>\<open>try\<close> block: the first call that raises ends the block with
  its message.
\<close>

definition and_then ::
    "(world \<Rightarrow> (string + 'a) \<times> world) \<Rightarrow> ('a \<Rightarrow> world \<Rightarrow> (string + 'b) \<times> world)
       \<Rightarrow> world \<Rightarrow> (string + 'b) \<times> world" where
  "and_then f g w = (case f w of (Inl e, w1) \<Rightarrow> (Inl e, w1) | (Inr x, w1) \<Rightarrow> g x w1)"

text \<open>\<^verbatim>\<open>f'File size exceeds {MAX_FILE_SIZE_MB} MB limit'\<close>\<close>

definition size_limit_message :: string where
  "size_limit_message = ''File size exceeds 10 MB limit''"

text \<open>The steps of \<^verbatim>\<open>upload_file\<close> after the size check, inside its \<^verbatim>\<open>try\<close> block.\<close>

definition upload_steps :: "uploaded_file \<Rightarrow> int \<Rightarrow> world \<Rightarrow> (string + upload_result) \<times> world" where
  "upload_steps uploaded_file file_size w =
     (let (t, w1) = now w;
          timestamp = strftime t;
          original_name = uf_name uploaded_file;
          file_extension = snd (splitext original_name);
          unique_filename = timestamp @ ''_'' @ original_name;
          path = ''uploads/'' @ unique_filename
      in and_then (blob_upload_from_string path (uf_getvalue uploaded_file) (uf_type uploaded_file))
           (\<lambda>_. and_then (blob_make_public path)
           (\<lambda>_. and_then (blob_public_url path)
           (\<lambda>url w2.
              let (t', w3) = now w2;
                  metadata = \<lparr>original_name = original_name,
                              stored_name = unique_filename,
                              size_bytes = Some (PyInt file_size),
                              size_mb = py_round2 (bytes_to_mb file_size),
                              mime_type = uf_type uploaded_file,
                              storage_path = ''uploads/'' @ unique_filename,
                              download_url = url,
                              uploaded_at = t',
                              file_extension = file_extension\<rparr>;
                  (i, w4) = new_document w3
              in and_then (doc_set i metadata)
                   (\<lambda>_ w5. (Inr (UploadSuccess metadata i), w5)) w4))) w1)"

text \<open>The \<^verbatim>\<open>try\<close> block of \<^verbatim>\<open>upload_file\<close>: the size check returns early.\<close>

definition upload_try :: "uploaded_file \<Rightarrow> world \<Rightarrow> (string + upload_result) \<times> world" where
  "upload_try uploaded_file w =
     (let file_size = uf_size uploaded_file
      in if file_size > MAX_FILE_SIZE_BYTES
         then (Inr (UploadFailure size_limit_message), w)
         else upload_steps uploaded_file file_size w)"

text \<open>\<^verbatim>\<open>upload_file\<close>: the \<^verbatim>\<open>except\<close> clause turns an exception into a failure result.\<close>

definition upload_file :: "uploaded_file \<Rightarrow> world \<Rightarrow> upload_result \<times> world" where
  "upload_file uploaded_file w =
     (case upload_try uploaded_file w of
        (Inl e, w') \<Rightarrow> (UploadFailure e, w')
      | (Inr r, w') \<Rightarrow> (r, w'))"

definition with_id :: "string \<times> metadata \<Rightarrow> file_data" where
  "with_id d = metadata.extend (snd d) (file_data.fields (fst d))"

definition get_all_files :: "world \<Rightarrow> file_data list \<times> world" where
  "get_all_files w =
     (case doc_stream w of
        (Inl e, w') \<Rightarrow> ([], w')
      | (Inr ds, w') \<Rightarrow> (map with_id ds, w'))"

definition delete_file :: "string \<Rightarrow> string \<Rightarrow> world \<Rightarrow> delete_result \<times> world" where
  "delete_file document_id path w =
     (case and_then (blob_delete path) (\<lambda>_. doc_delete document_id) w of
        (Inl e, w') \<Rightarrow> (DeleteFailure e, w')
      | (Inr _, w') \<Rightarrow> (DeleteSuccess ''File deleted successfully'', w'))"

text \<open>\<^verbatim>\<open>f.get('size_bytes', 0)\<close>\<close>

definition get_size_bytes :: "file_data \<Rightarrow> py_value" where
  "get_size_bytes f = (case size_bytes f of None \<Rightarrow> PyInt 0 | Some v \<Rightarrow> v)"

text \<open>The \<^verbatim>\<open>try\<close> block of \<^verbatim>\<open>get_storage_stats\<close>, after the listing.\<close>

definition stats_try :: "file_data list \<Rightarrow> py_error + storage_stats" where
  "stats_try files =
     (let n = length files
      in case py_sum 0 (map get_size_bytes files) of
           Inl e \<Rightarrow> Inl e
         | Inr bytes_sum \<Rightarrow>
             (case true_divide_mb bytes_sum of
                Inl e \<Rightarrow> Inl e
              | Inr q \<Rightarrow> Inr \<lparr>total_files = n,
                               total_size_bytes = bytes_sum,
                               total_size_mb = py_round2 q\<rparr>))"

text \<open>
  \<^verbatim>\<open>get_storage_stats\<close>: the \<^verbatim>\<open>except\<close> clause answers any exception of the block with
  three zeros. \<^verbatim>\<open>get_all_files\<close> itself never raises.
\<close>

definition get_storage_stats :: "world \<Rightarrow> storage_stats \<times> world" where
  "get_storage_stats w =
     (let (files, w') = get_all_files w
      in case stats_try files of
           Inl e \<Rightarrow> (\<lparr>total_files = 0, total_size_bytes = 0, total_size_mb = 0\<rparr>, w')
         | Inr stats \<Rightarrow> (stats, w'))"

text \<open>A caller uploading several files, one after the other.\<close>

fun upload_all :: "uploaded_file list \<Rightarrow> world \<Rightarrow> upload_result list \<times> world" where
  "upload_all [] w = ([], w)"
| "upload_all (f # fs) w =
     (let (r, w1) = upload_file f w;
          (rs, w2) = upload_all fs w1
      in (r # rs, w2))"

text \<open>The documents that a list of upload results reports as written.\<close>

fun written :: "upload_result list \<Rightarrow> (string \<times> metadata) list" where
  "written [] = []"
| "written (UploadSuccess m i # rs) = (i, m) # written rs"
| "written (UploadFailure e # rs) = written rs"

subsection \<open>firebase\_config\<close>

datatype exn = ValueError string | IOError string

datatype sdk_call = Certificate string | InitializeApp string string

text \<open>
  The process as \<^verbatim>\<open>initialize_firebase\<close> sees it: the environment (after
  \<^verbatim>\<open>load_dotenv()\<close>), the module flag \<^verbatim>\<open>_initialized\<close>, the default app of the
  Firebase SDK (credentials path and bucket), the log of SDK calls, and the exception
  \<^verbatim>\<open>credentials.Certificate\<close> raises on a path, if any.
\<close>

record process =
  environ :: "string \<rightharpoonup> string"
  initialized :: bool
  default_app :: "(string \<times> string) option"
  sdk_calls :: "sdk_call list"
  certificate_fault :: "string \<Rightarrow> exn option"

text \<open>
  The result of \<^verbatim>\<open>os.getenv\<close> is \<^verbatim>\<open>None\<close> or a string. \<open>falsy\<close> is Python's
  \<^verbatim>\<open>not v\<close> on it: true of \<^verbatim>\<open>None\<close> and of the empty string. \<open>getenv_value\<close> reads the
  string of a result.
\<close>

definition falsy :: "string option \<Rightarrow> bool" where
  "falsy v = (case v of None \<Rightarrow> True | Some s \<Rightarrow> s = [])"

definition getenv_value :: "string option \<Rightarrow> string" where
  "getenv_value v = (case v of None \<Rightarrow> [] | Some s \<Rightarrow> s)"

definition missing_configuration :: exn where
  "missing_configuration = ValueError
     (''Missing Firebase configuration. Please set FIREBASE_CREDENTIALS_PATH ''
      @ ''and FIREBASE_STORAGE_BUCKET in your .env file'')"

text \<open>\<^verbatim>\<open>firebase_admin.initialize_app\<close> raises when the default app exists already.\<close>

definition initialize_app :: "string \<Rightarrow> string \<Rightarrow> process \<Rightarrow> (exn + unit) \<times> process" where
  "initialize_app cred bucket s =
     (let s1 = s\<lparr>sdk_calls := sdk_calls s @ [InitializeApp cred bucket]\<rparr>
      in case default_app s of
           Some a \<Rightarrow> (Inl (ValueError ''The default Firebase app already exists''), s1)
         | None \<Rightarrow> (Inr (), s1\<lparr>default_app := Some (cred, bucket)\<rparr>))"

definition load_certificate :: "string \<Rightarrow> process \<Rightarrow> (exn + string) \<times> process" where
  "load_certificate path s =
     (let s1 = s\<lparr>sdk_calls := sdk_calls s @ [Certificate path]\<rparr>
      in case certificate_fault s path of
           Some e \<Rightarrow> (Inl e, s1)
         | None \<Rightarrow> (Inr path, s1))"

text \<open>
  \<^verbatim>\<open>initialize_firebase\<close>: \<open>Inl\<close> is the exception that the \<^verbatim>\<open>except\<close> clause prints and
  raises again.
\<close>

definition initialize_firebase :: "process \<Rightarrow> (exn + unit) \<times> process" where
  "initialize_firebase s =
     (if initialized s then (Inr (), s)
      else
        let cred_path = environ s ''FIREBASE_CREDENTIALS_PATH'';
            storage_bucket = environ s ''FIREBASE_STORAGE_BUCKET''
        in if falsy cred_path \<or> falsy storage_bucket then (Inl missing_configuration, s)
           else
             (case load_certificate (getenv_value cred_path) s of
                (Inl e, s1) \<Rightarrow> (Inl e, s1)
              | (Inr cred, s1) \<Rightarrow>
                  (case initialize_app cred (getenv_value storage_bucket) s1 of
                     (Inl e, s2) \<Rightarrow> (Inl e, s2)
                   | (Inr u, s2) \<Rightarrow> (Inr (), s2\<lparr>initialized := True\<rparr>))))"

subsection \<open>Notions of the specification\<close>

text \<open>The key an upload writes its blob under, and the id its document gets.\<close>

definition upload_path :: "uploaded_file \<Rightarrow> world \<Rightarrow> string" where
  "upload_path f w = ''uploads/'' @ strftime (clock w (ticks w)) @ ''_'' @ uf_name f"

definition next_id :: "world \<Rightarrow> string" where
  "next_id w = auto_id w (ids_drawn w)"

text \<open>The client calls of an upload in which nothing fails.\<close>

definition upload_calls :: "uploaded_file \<Rightarrow> world \<Rightarrow> store_call list" where
  "upload_calls f w =
     [BlobUpload (upload_path f w), BlobMakePublic (upload_path f w),
      BlobPublicUrl (upload_path f w), DocSet (next_id w)]"

text \<open>The metadata an upload of \<open>f\<close> assembles in \<open>w\<close>, and the blob it writes.\<close>

definition metadata_of :: "uploaded_file \<Rightarrow> world \<Rightarrow> metadata" where
  "metadata_of f w =
     \<lparr>original_name = uf_name f,
      stored_name = strftime (clock w (ticks w)) @ ''_'' @ uf_name f,
      size_bytes = Some (PyInt (uf_size f)),
      size_mb = py_round2 (bytes_to_mb (uf_size f)),
      mime_type = uf_type f,
      storage_path = upload_path f w,
      download_url = url_of w (upload_path f w),
      uploaded_at = clock w (Suc (ticks w)),
      file_extension = snd (splitext (uf_name f))\<rparr>"

definition stored :: "uploaded_file \<Rightarrow> bool \<Rightarrow> blob" where
  "stored f pub = \<lparr>content = uf_getvalue f, content_type = uf_type f, public = pub\<rparr>"

text \<open>\<open>y\<close> is \<open>x\<close> rounded to two decimal places.\<close>

definition rounded_2dp :: "rat \<Rightarrow> rat \<Rightarrow> bool" where
  "rounded_2dp x y = (of_int \<lfloor>y * 100\<rfloor> = y * 100 \<and> \<bar>y - x\<bar> \<le> 1 / 200)"




text \<open>Every \<^verbatim>\<open>size_bytes\<close> that a listing holds is an integer.\<close>

definition integer_sizes :: "file_data list \<Rightarrow> bool" where
  "integer_sizes fs =
     list_all (\<lambda>f. case size_bytes f of None \<Rightarrow> True | Some (PyInt n) \<Rightarrow> True | Some v \<Rightarrow> False) fs"

text \<open>The sum of \<^verbatim>\<open>size_bytes\<close> over a listing, an absent one counted as 0.\<close>

definition size_total :: "file_data list \<Rightarrow> int" where
  "size_total fs = (\<Sum>f\<leftarrow>fs. case size_bytes f of Some (PyInt n) \<Rightarrow> n | v \<Rightarrow> 0)"

text \<open>The listing is in descending order of \<^verbatim>\<open>uploaded_at\<close>.\<close>

definition newest_first :: "file_data list \<Rightarrow> bool" where
  "newest_first fs = sorted_wrt (\<lambda>a b. dt_key (uploaded_at a) \<ge> dt_key (uploaded_at b)) fs"

text \<open>The timestamps of a list of documents strictly increase.\<close>

definition strictly_increasing :: "(string \<times> metadata) list \<Rightarrow> bool" where
  "strictly_increasing ds = sorted_wrt (\<lambda>a b. dt_key (uploaded_at (snd a)) < dt_key (uploaded_at (snd b))) ds"

subsection \<open>Example inputs\<close>

definition example_time :: datetime where
  "example_time = \<lparr>year = 2024, month = 1, day = 2, hour = 3, minute = 4, second = 5,
                    microsecond = 6\<rparr>"

text \<open>An empty bucket and catalog, no fault, a clock that advances a second a reading.\<close>

definition example_world :: world where
  "example_world =
     \<lparr>blobs = Map.empty, docs = [], calls = [], fault = (\<lambda>c. None),
      clock = (\<lambda>n. example_time\<lparr>second := 5 + n\<rparr>), ticks = 0,
      auto_id = (\<lambda>n. replicate (Suc n) CHR ''x''), ids_drawn = 0,
      url_of = (\<lambda>p. ''https://storage.googleapis.com/bucket/'' @ p)\<rparr>"

definition example_file :: uploaded_file where
  "example_file = \<lparr>uf_name = ''a.txt'', uf_type = Some ''text/plain'', uf_size = 5,
                    uf_getvalue = [104, 101, 108, 108, 111]\<rparr>"

text \<open>What the upload of \<open>example_file\<close> in \<open>example_world\<close> returns.\<close>

definition example_metadata :: metadata where
  "example_metadata =
     \<lparr>original_name = ''a.txt'',
      stored_name = ''20240102_030405_a.txt'',
      size_bytes = Some (PyInt 5),
      size_mb = 0,
      mime_type = Some ''text/plain'',
      storage_path = ''uploads/20240102_030405_a.txt'',
      download_url = ''https://storage.googleapis.com/bucket/uploads/20240102_030405_a.txt'',
      uploaded_at = example_time\<lparr>second := 6\<rparr>,
      file_extension = ''.txt''\<rparr>"

text \<open>A file object whose \<^verbatim>\<open>size\<close> attribute is not the length of its content.\<close>

definition misreporting_file :: uploaded_file where
  "misreporting_file = example_file\<lparr>uf_size := 3\<rparr>"

text \<open>Eleven mebibytes of content behind a \<^verbatim>\<open>size\<close> attribute of zero.\<close>

definition oversized_file :: uploaded_file where
  "oversized_file = example_file\<lparr>uf_size := 0, uf_getvalue := replicate 11534336 0\<rparr>"


text \<open>The example world after the upload of \<open>example_file\<close>.\<close>

definition example_catalog :: world where
  "example_catalog = snd (upload_file example_file example_world)"

text \<open>Catalogs of documents that \<^verbatim>\<open>upload_file\<close> did not all write.\<close>

definition null_size_catalog :: world where
  "null_size_catalog =
     example_catalog\<lparr>docs := [(''x'', example_metadata\<lparr>size_bytes := Some PyNone\<rparr>)]\<rparr>"

definition huge_catalog :: world where
  "huge_catalog =
     example_catalog\<lparr>docs := [(''x'', example_metadata\<lparr>size_bytes := Some (PyInt 7164846493243439783)\<rparr>)]\<rparr>"

definition mixed_catalog :: world where
  "mixed_catalog =
     example_catalog\<lparr>docs := [(''x'', example_metadata),
                              (''y'', example_metadata\<lparr>size_bytes := None\<rparr>)]\<rparr>"

text \<open>The fault map in which one call is answered with an error.\<close>

definition unavailable :: "store_call \<Rightarrow> store_call \<Rightarrow> string option" where
  "unavailable c = (\<lambda>c'. if c' = c then Some ''503 Service Unavailable'' else None)"

definition example_process :: process where
  "example_process =
     \<lparr>environ = [''FIREBASE_CREDENTIALS_PATH'' \<mapsto> ''key.json'',
                 ''FIREBASE_STORAGE_BUCKET'' \<mapsto> ''bucket''],
      initialized = False, default_app = None, sdk_calls = [],
      certificate_fault = (\<lambda>p. None)\<rparr>"

section \<open>Properties\<close>

subsection \<open>The outcomes of an upload\<close>

lemmas client_defs = and_then_def now_def
  blob_upload_from_string_def blob_make_public_def blob_public_url_def new_document_def
  doc_set_def log_call_def upload_path_def next_id_def Let_def

lemma max_bytes: "MAX_FILE_SIZE_BYTES = 10485760"
  by (simp add: MAX_FILE_SIZE_BYTES_def MAX_FILE_SIZE_MB_def)

lemma steps_upload_fails:
  assumes "fault w (BlobUpload (upload_path f w)) = Some e"
  shows "upload_steps f (uf_size f) w
           = (Inl e, w\<lparr>ticks := ticks w + 1, calls := calls w @ take 1 (upload_calls f w)\<rparr>)"
  using assms by (simp add: upload_steps_def client_defs upload_calls_def)

lemma steps_make_public_fails:
  assumes "fault w (BlobUpload (upload_path f w)) = None"
    and "fault w (BlobMakePublic (upload_path f w)) = Some e"
  shows "upload_steps f (uf_size f) w
           = (Inl e, w\<lparr>ticks := ticks w + 1, calls := calls w @ take 2 (upload_calls f w),
                blobs := (blobs w)(upload_path f w \<mapsto> \<lparr>content = uf_getvalue f, content_type = uf_type f, public = False\<rparr>)\<rparr>)"
  using assms by (simp add: upload_steps_def client_defs upload_calls_def)

lemma steps_public_url_fails:
  assumes "fault w (BlobUpload (upload_path f w)) = None"
    and "fault w (BlobMakePublic (upload_path f w)) = None"
    and "fault w (BlobPublicUrl (upload_path f w)) = Some e"
  shows "upload_steps f (uf_size f) w
           = (Inl e, w\<lparr>ticks := ticks w + 1, calls := calls w @ take 3 (upload_calls f w),
                blobs := (blobs w)(upload_path f w \<mapsto> \<lparr>content = uf_getvalue f, content_type = uf_type f, public = True\<rparr>)\<rparr>)"
  using assms by (simp add: upload_steps_def client_defs upload_calls_def)

lemma steps_doc_set_fails:
  assumes "fault w (BlobUpload (upload_path f w)) = None"
    and "fault w (BlobMakePublic (upload_path f w)) = None"
    and "fault w (BlobPublicUrl (upload_path f w)) = None"
    and "fault w (DocSet (next_id w)) = Some e"
  shows "upload_steps f (uf_size f) w
           = (Inl e, w\<lparr>ticks := ticks w + 2, calls := calls w @ upload_calls f w,
                blobs := (blobs w)(upload_path f w \<mapsto> \<lparr>content = uf_getvalue f, content_type = uf_type f, public = True\<rparr>),
                ids_drawn := ids_drawn w + 1\<rparr>)"
  using assms by (simp add: upload_steps_def client_defs upload_calls_def)

lemma steps_succeed:
  assumes "fault w (BlobUpload (upload_path f w)) = None"
    and "fault w (BlobMakePublic (upload_path f w)) = None"
    and "fault w (BlobPublicUrl (upload_path f w)) = None"
    and "fault w (DocSet (next_id w)) = None"
  shows "upload_steps f (uf_size f) w
           = (Inr (UploadSuccess (metadata_of f w) (next_id w)),
              w\<lparr>ticks := ticks w + 2, calls := calls w @ upload_calls f w,
                blobs := (blobs w)(upload_path f w \<mapsto> \<lparr>content = uf_getvalue f, content_type = uf_type f, public = True\<rparr>),
                ids_drawn := ids_drawn w + 1,
                docs := set_doc (next_id w) (metadata_of f w) (docs w)\<rparr>)"
  using assms by (simp add: upload_steps_def client_defs upload_calls_def metadata_of_def)


lemma upload_file_cases [case_names too_large upload_fails make_public_fails public_url_fails
    doc_set_fails succeeds]:
  obtains
    (too_large) "uf_size f > MAX_FILE_SIZE_BYTES"
      "upload_file f w = (UploadFailure size_limit_message, w)"
  | (upload_fails) e where "uf_size f \<le> MAX_FILE_SIZE_BYTES"
      "fault w (BlobUpload (upload_path f w)) = Some e"
      "upload_file f w = (UploadFailure e,
         w\<lparr>ticks := ticks w + 1, calls := calls w @ take 1 (upload_calls f w)\<rparr>)"
  | (make_public_fails) e where "uf_size f \<le> MAX_FILE_SIZE_BYTES"
      "fault w (BlobUpload (upload_path f w)) = None"
      "fault w (BlobMakePublic (upload_path f w)) = Some e"
      "upload_file f w = (UploadFailure e,
         w\<lparr>ticks := ticks w + 1, calls := calls w @ take 2 (upload_calls f w),
           blobs := (blobs w)(upload_path f w \<mapsto> stored f False)\<rparr>)"
  | (public_url_fails) e where "uf_size f \<le> MAX_FILE_SIZE_BYTES"
      "fault w (BlobUpload (upload_path f w)) = None"
      "fault w (BlobMakePublic (upload_path f w)) = None"
      "fault w (BlobPublicUrl (upload_path f w)) = Some e"
      "upload_file f w = (UploadFailure e,
         w\<lparr>ticks := ticks w + 1, calls := calls w @ take 3 (upload_calls f w),
           blobs := (blobs w)(upload_path f w \<mapsto> stored f True)\<rparr>)"
  | (doc_set_fails) e where "uf_size f \<le> MAX_FILE_SIZE_BYTES"
      "fault w (BlobUpload (upload_path f w)) = None"
      "fault w (BlobMakePublic (upload_path f w)) = None"
      "fault w (BlobPublicUrl (upload_path f w)) = None"
      "fault w (DocSet (next_id w)) = Some e"
      "upload_file f w = (UploadFailure e,
         w\<lparr>ticks := ticks w + 2, calls := calls w @ upload_calls f w,
           blobs := (blobs w)(upload_path f w \<mapsto> stored f True),
           ids_drawn := ids_drawn w + 1\<rparr>)"
  | (succeeds) "uf_size f \<le> MAX_FILE_SIZE_BYTES"
      "fault w (BlobUpload (upload_path f w)) = None"
      "fault w (BlobMakePublic (upload_path f w)) = None"
      "fault w (BlobPublicUrl (upload_path f w)) = None"
      "fault w (DocSet (next_id w)) = None"
      "upload_file f w = (UploadSuccess (metadata_of f w) (next_id w),
         w\<lparr>ticks := ticks w + 2, calls := calls w @ upload_calls f w,
           blobs := (blobs w)(upload_path f w \<mapsto> stored f True),
           ids_drawn := ids_drawn w + 1,
           docs := set_doc (next_id w) (metadata_of f w) (docs w)\<rparr>)"
proof (cases "uf_size f > MAX_FILE_SIZE_BYTES")
  case True
  then show ?thesis
    using too_large by (simp add: upload_file_def upload_try_def)
next
  case small: False
  then have unfold: "upload_file f w =
      (case upload_steps f (uf_size f) w of (Inl e, w') \<Rightarrow> (UploadFailure e, w') | (Inr r, w') \<Rightarrow> (r, w'))"
    by (simp add: upload_file_def upload_try_def)
  from small have le: "uf_size f \<le> MAX_FILE_SIZE_BYTES" by simp
  show ?thesis
  proof (cases "fault w (BlobUpload (upload_path f w))")
    case (Some e)
    then show ?thesis
      using upload_fails [of e] le by (simp add: unfold steps_upload_fails)
  next
    case up: None
    show ?thesis
    proof (cases "fault w (BlobMakePublic (upload_path f w))")
      case (Some e)
      then show ?thesis
        using make_public_fails [of e] le up
        by (simp add: unfold steps_make_public_fails stored_def)
    next
      case mp: None
      show ?thesis
      proof (cases "fault w (BlobPublicUrl (upload_path f w))")
        case (Some e)
        then show ?thesis
          using public_url_fails [of e] le up mp
          by (simp add: unfold steps_public_url_fails stored_def)
      next
        case pu: None
        show ?thesis
        proof (cases "fault w (DocSet (next_id w))")
          case (Some e)
          then show ?thesis
            using doc_set_fails [of e] le up mp pu
            by (simp add: unfold steps_doc_set_fails stored_def)
        next
          case None
          then show ?thesis
            using succeeds le up mp pu
            by (simp add: unfold steps_succeed stored_def)
        qed
      qed
    qed
  qed
qed

lemma upload_success:
  assumes "fst (upload_file f w) = UploadSuccess m i"
  shows "m = metadata_of f w" and "i = next_id w"
    and "uf_size f \<le> MAX_FILE_SIZE_BYTES"
    and "docs (snd (upload_file f w)) = set_doc i m (docs w)"
    and "calls (snd (upload_file f w)) = calls w @ upload_calls f w"
    and "blobs (snd (upload_file f w)) (upload_path f w) = Some (stored f True)"
    and "fault (snd (upload_file f w)) = fault w"
  using assms by (cases f w rule: upload_file_cases; simp)+

lemma upload_failure:
  assumes "fst (upload_file f w) = UploadFailure e"
  shows "docs (snd (upload_file f w)) = docs w"
    and "fault (snd (upload_file f w)) = fault w"
  using assms by (cases f w rule: upload_file_cases; simp)+

lemma upload_frame:
  shows "fault (snd (upload_file f w)) = fault w"
    and "clock (snd (upload_file f w)) = clock w"
    and "auto_id (snd (upload_file f w)) = auto_id w"
    and "url_of (snd (upload_file f w)) = url_of w"
  by (cases f w rule: upload_file_cases; simp)+


subsection \<open>Rounding in integer arithmetic\<close>

lemma round_half_even_fraction:
  fixes a b :: int
  assumes "0 < b"
  shows "round_half_even (of_int a / of_int b) =
     (if 2 * (a mod b) < b then a div b
      else if 2 * (a mod b) > b then a div b + 1
      else if even (a div b) then a div b else a div b + 1)"
proof -
  have fl: "\<lfloor>(of_int a / of_int b :: rat)\<rfloor> = a div b"
    by (simp add: floor_divide_of_int_eq)
  have "of_int a = (of_int (a div b) * of_int b + of_int (a mod b) :: rat)"
    by (metis of_int_add of_int_mult div_mult_mod_eq)
  then have frac: "(of_int a / of_int b :: rat) - of_int (a div b) = of_int (a mod b) / of_int b"
    using assms by (simp add: field_simps)
  have "(of_int (a mod b) / of_int b < (1 / 2 :: rat)) = (of_int (2 * (a mod b)) < (of_int b :: rat))"
    using assms by (simp add: field_simps)
  then have lt: "(of_int (a mod b) / of_int b < (1 / 2 :: rat)) = (2 * (a mod b) < b)"
    by (simp only: of_int_less_iff)
  have "(of_int (a mod b) / of_int b > (1 / 2 :: rat)) = (of_int (2 * (a mod b)) > (of_int b :: rat))"
    using assms by (simp add: field_simps)
  then have gt: "(of_int (a mod b) / of_int b > (1 / 2 :: rat)) = (2 * (a mod b) > b)"
    by (simp only: of_int_less_iff)
  show ?thesis
    unfolding round_half_even_def Let_def fl frac lt gt by (rule refl)
qed

lemma py_round2_mb:
  "py_round2 (bytes_to_mb n) =
     of_int (if 2 * ((n * 100) mod 1048576) < 1048576 then (n * 100) div 1048576
             else if 2 * ((n * 100) mod 1048576) > 1048576 then (n * 100) div 1048576 + 1
             else if even ((n * 100) div 1048576) then (n * 100) div 1048576
             else (n * 100) div 1048576 + 1) / 100"
proof -
  have eq: "bytes_to_mb n * 100 = of_int (n * 100) / of_int 1048576"
    by (simp add: bytes_to_mb_def)
  have "round_half_even (of_int (n * 100) / of_int 1048576) =
     (if 2 * ((n * 100) mod 1048576) < 1048576 then (n * 100) div 1048576
             else if 2 * ((n * 100) mod 1048576) > 1048576 then (n * 100) div 1048576 + 1
             else if even ((n * 100) div 1048576) then (n * 100) div 1048576
             else (n * 100) div 1048576 + 1)"
    by (rule round_half_even_fraction) simp
  then show ?thesis
    unfolding py_round2_def eq by (simp only:)
qed

lemma round2_values:
  "py_round2 (bytes_to_mb 0) = 0" "py_round2 (bytes_to_mb 3) = 0"
  "py_round2 (bytes_to_mb 5) = 0" "py_round2 (bytes_to_mb 10485760) = 10"
  "py_round2 (bytes_to_mb 131072) = 12 / 100"
  by (simp_all add: py_round2_mb)

subsection \<open>The example inputs, evaluated\<close>

lemma example_strftime: "strftime (clock example_world (ticks example_world)) = ''20240102_030405''"
  by (simp add: example_world_def example_time_def strftime_def pad2_def pad4_def digit_def)

lemma example_path:
  "uf_name f = ''a.txt'' \<Longrightarrow> upload_path f example_world = ''uploads/20240102_030405_a.txt''"
  by (simp add: upload_path_def example_strftime)

lemma splitext_a_txt: "splitext ''a.txt'' = (''a'', ''.txt'')"
  by (simp add: splitext_def rfind_def)

lemma example_world_simps:
  "fault example_world c = None" "next_id example_world = ''x''" "calls example_world = []"
  "docs example_world = []"
  by (simp_all add: example_world_def next_id_def)

lemma example_metadata_of:
  assumes "uf_name f = ''a.txt''" and "uf_type f = Some ''text/plain''"
  shows "metadata_of f example_world
     = example_metadata\<lparr>size_bytes := Some (PyInt (uf_size f)), size_mb := py_round2 (bytes_to_mb (uf_size f))\<rparr>"
  unfolding metadata_of_def example_path [OF assms(1)] example_strftime assms
  by (simp add: splitext_a_txt example_metadata_def example_world_def example_time_def)

lemma upload_without_fault:
  assumes "uf_size f \<le> MAX_FILE_SIZE_BYTES" and "\<And>c. fault w c = None"
  shows "fst (upload_file f w) = UploadSuccess (metadata_of f w) (next_id w)"
    and "calls (snd (upload_file f w)) = calls w @ upload_calls f w"
    and "docs (snd (upload_file f w)) = set_doc (next_id w) (metadata_of f w) (docs w)"
  using assms by (cases f w rule: upload_file_cases; simp)+

lemma example_upload:
  assumes "uf_name f = ''a.txt''" and "uf_type f = Some ''text/plain''" and "uf_size f \<le> 10485760"
  shows "fst (upload_file f example_world)
          = UploadSuccess (example_metadata\<lparr>size_bytes := Some (PyInt (uf_size f)),
                             size_mb := py_round2 (bytes_to_mb (uf_size f))\<rparr>) ''x''"
  and "calls (snd (upload_file f example_world))
          = [BlobUpload ''uploads/20240102_030405_a.txt'', BlobMakePublic ''uploads/20240102_030405_a.txt'',
             BlobPublicUrl ''uploads/20240102_030405_a.txt'', DocSet ''x'']"
proof -
  have le: "uf_size f \<le> MAX_FILE_SIZE_BYTES"
    using assms(3) by (simp add: max_bytes)
  show "fst (upload_file f example_world)
          = UploadSuccess (example_metadata\<lparr>size_bytes := Some (PyInt (uf_size f)),
                             size_mb := py_round2 (bytes_to_mb (uf_size f))\<rparr>) ''x''"
    using upload_without_fault(1) [OF le example_world_simps(1)]
    by (simp only: example_metadata_of [OF assms(1,2)] example_world_simps)
  show "calls (snd (upload_file f example_world))
          = [BlobUpload ''uploads/20240102_030405_a.txt'', BlobMakePublic ''uploads/20240102_030405_a.txt'',
             BlobPublicUrl ''uploads/20240102_030405_a.txt'', DocSet ''x'']"
    using upload_without_fault(2) [OF le example_world_simps(1)]
    by (simp only: upload_calls_def example_path [OF assms(1)] example_world_simps append_Nil)
qed

lemma example_files:
  "uf_name example_file = ''a.txt''" "uf_type example_file = Some ''text/plain''"
  "uf_size example_file = 5" "uf_getvalue example_file = [104, 101, 108, 108, 111]"
  "uf_name misreporting_file = ''a.txt''" "uf_type misreporting_file = Some ''text/plain''"
  "uf_size misreporting_file = 3" "uf_getvalue misreporting_file = [104, 101, 108, 108, 111]"
  "uf_name oversized_file = ''a.txt''" "uf_type oversized_file = Some ''text/plain''"
  "uf_size oversized_file = 0" "uf_getvalue oversized_file = replicate 11534336 0"
  by (simp_all add: example_file_def misreporting_file_def oversized_file_def)

lemma example_metadata_size:
  "example_metadata\<lparr>size_bytes := Some (PyInt 5), size_mb := 0\<rparr> = example_metadata"
  by (simp add: example_metadata_def)

lemma listing_depends:
  assumes "docs w' = docs w" and "fault w' = fault w"
  shows "fst (get_all_files w') = fst (get_all_files w)"
  using assms by (simp add: get_all_files_def doc_stream_def log_call_def Let_def split: option.split)

subsection \<open>The size of an upload\<close>

text \<open>
  Claim C1, as amended. For every successful \<^verbatim>\<open>upload_file\<close>, \<^verbatim>\<open>size_bytes\<close> of the
  returned record is the \<^verbatim>\<open>size\<close> attribute of the uploaded file object, and the blob
  written at \<^verbatim>\<open>storage_path\<close> holds the content \<^verbatim>\<open>getvalue()\<close> returned; so
  \<^verbatim>\<open>size_bytes\<close> is the length of the content written whenever the \<^verbatim>\<open>size\<close> attribute
  is the length of the content.
\<close>

theorem size_bytes_is_reported_size:
  assumes "fst (upload_file f w) = UploadSuccess m i"
  shows "size_bytes m = Some (PyInt (uf_size f))
         \<and> map_option content (blobs (snd (upload_file f w)) (storage_path m)) = Some (uf_getvalue f)
         \<and> (uf_size f = int (length (uf_getvalue f))
              \<longrightarrow> size_bytes m = map_option (\<lambda>b. PyInt (int (length (content b))))
                                  (blobs (snd (upload_file f w)) (storage_path m)))"
  using upload_success(1,6) [OF assms]
  by (simp add: metadata_of_def stored_def)

text \<open>The upload of the five-byte example file, whose \<^verbatim>\<open>size\<close> is 5.\<close>

theorem size_bytes_is_reported_size_witness:
  "fst (upload_file example_file example_world) = UploadSuccess example_metadata ''x''
   \<and> size_bytes example_metadata = Some (PyInt (uf_size example_file))
   \<and> uf_size example_file = int (length (uf_getvalue example_file))"
  using size_bytes_is_reported_size [of example_file example_world example_metadata "''x''"]
    example_upload(1) [of example_file]
  by (simp add: example_files round2_values example_metadata_size)

text \<open>
  Claim C1 as stated fails: a file object with \<^verbatim>\<open>size = 3\<close> and five bytes of content
  is uploaded with \<^verbatim>\<open>size_bytes = 3\<close>, the value the caller's object asserts, not the
  length of the content written.
\<close>

theorem size_bytes_not_content_length:
  "fst (upload_file misreporting_file example_world)
     = UploadSuccess (example_metadata\<lparr>size_bytes := Some (PyInt 3)\<rparr>) ''x''
   \<and> length (uf_getvalue misreporting_file) = 5"
  using example_upload(1) [of misreporting_file]
  by (simp add: example_files round2_values) (simp add: example_metadata_def)

text \<open>
  Claim C3, as amended. For every input whose \<^verbatim>\<open>size\<close> attribute exceeds
  \<^verbatim>\<open>MAX_FILE_SIZE_BYTES\<close> (10 * 1024 * 1024), \<^verbatim>\<open>upload_file\<close> returns the failure
  \<^verbatim>\<open>'File size exceeds 10 MB limit'\<close> and leaves the state as it was: no call reaches
  the blob store or the catalog store.
\<close>

theorem oversize_rejected_without_calls:
  assumes "uf_size f > MAX_FILE_SIZE_BYTES"
  shows "upload_file f w = (UploadFailure size_limit_message, w)
         \<and> calls (snd (upload_file f w)) = calls w
         \<and> MAX_FILE_SIZE_BYTES = 10 * 1024 * 1024"
  using assms by (simp add: upload_file_def upload_try_def max_bytes)

text \<open>Scenario B: a file that reports eleven mebibytes.\<close>

theorem oversize_rejected_without_calls_witness:
  "uf_size (example_file\<lparr>uf_size := 11534336\<rparr>) > MAX_FILE_SIZE_BYTES
   \<and> fst (upload_file (example_file\<lparr>uf_size := 11534336\<rparr>) example_world)
       = UploadFailure ''File size exceeds 10 MB limit''
   \<and> calls (snd (upload_file (example_file\<lparr>uf_size := 11534336\<rparr>) example_world)) = []"
  using oversize_rejected_without_calls [of "example_file\<lparr>uf_size := 11534336\<rparr>" example_world]
  by (simp add: max_bytes size_limit_message_def example_world_simps)

text \<open>
  Claim C3 as stated fails: the gate reads the \<^verbatim>\<open>size\<close> attribute, not the content.
  Eleven mebibytes of content behind \<^verbatim>\<open>size = 0\<close> pass it, and all four client calls are
  made.
\<close>

theorem oversized_content_is_uploaded:
  "int (length (uf_getvalue oversized_file)) > MAX_FILE_SIZE_BYTES
   \<and> fst (upload_file oversized_file example_world)
       = UploadSuccess (example_metadata\<lparr>size_bytes := Some (PyInt 0)\<rparr>) ''x''
   \<and> calls (snd (upload_file oversized_file example_world))
       = [BlobUpload ''uploads/20240102_030405_a.txt'', BlobMakePublic ''uploads/20240102_030405_a.txt'',
          BlobPublicUrl ''uploads/20240102_030405_a.txt'', DocSet ''x'']"
  using example_upload [of oversized_file]
  by (simp add: example_files max_bytes round2_values) (simp add: example_metadata_def)

text \<open>
  Claim C10. The size gate is a strict inequality against 10,485,760: an upload of that
  size or less goes on to the blob write, and the size-limit failure with no client call
  is returned exactly for the sizes strictly greater.
\<close>

theorem size_gate_is_strict:
  "MAX_FILE_SIZE_BYTES = 10485760
   \<and> (uf_size f \<le> MAX_FILE_SIZE_BYTES
        \<longrightarrow> (\<exists>cs. calls (snd (upload_file f w)) = calls w @ BlobUpload (upload_path f w) # cs))
   \<and> ((fst (upload_file f w) = UploadFailure size_limit_message
         \<and> calls (snd (upload_file f w)) = calls w) = (uf_size f > MAX_FILE_SIZE_BYTES))"
  by (cases f w rule: upload_file_cases; simp add: max_bytes upload_calls_def)

text \<open>A file of exactly 10,485,760 bytes is uploaded.\<close>

theorem size_gate_is_strict_witness:
  "uf_size (example_file\<lparr>uf_size := 10485760\<rparr>) \<le> MAX_FILE_SIZE_BYTES
   \<and> (\<exists>cs. calls (snd (upload_file (example_file\<lparr>uf_size := 10485760\<rparr>) example_world))
         = BlobUpload ''uploads/20240102_030405_a.txt'' # cs)
   \<and> fst (upload_file (example_file\<lparr>uf_size := 10485760\<rparr>) example_world)
       = UploadSuccess (example_metadata\<lparr>size_bytes := Some (PyInt 10485760), size_mb := 10\<rparr>) ''x''"
  using size_gate_is_strict [of "example_file\<lparr>uf_size := 10485760\<rparr>" example_world]
    example_upload(1) [of "example_file\<lparr>uf_size := 10485760\<rparr>"]
  by (simp add: max_bytes round2_values example_files example_world_simps example_path)


subsection \<open>Listing and deleting\<close>

lemma get_all_files_ok:
  assumes "fault w DocStream = None"
  shows "fst (get_all_files w) = map with_id (order_by_uploaded_at_desc (docs w))"
  using assms by (simp add: get_all_files_def doc_stream_def log_call_def Let_def)

lemma get_all_files_fails:
  assumes "fault w DocStream = Some e"
  shows "fst (get_all_files w) = []"
  using assms by (simp add: get_all_files_def doc_stream_def log_call_def Let_def)

lemma get_all_files_frame:
  "docs (snd (get_all_files w)) = docs w" "blobs (snd (get_all_files w)) = blobs w"
  "fault (snd (get_all_files w)) = fault w" "calls (snd (get_all_files w)) = calls w @ [DocStream]"
  by (simp_all add: get_all_files_def doc_stream_def log_call_def Let_def split: option.split)

lemma delete_blob_fails:
  assumes "fault w (BlobDelete path) \<noteq> None \<or> blobs w path = None"
  shows "\<exists>e. delete_file i path w = (DeleteFailure e, w\<lparr>calls := calls w @ [BlobDelete path]\<rparr>)"
  using assms
  by (auto simp: delete_file_def and_then_def blob_delete_def log_call_def Let_def split: option.split)

lemma delete_ok:
  assumes "fault w (BlobDelete path) = None" and "blobs w path = Some b"
    and "fault w (DocDelete i) = None"
  shows "delete_file i path w = (DeleteSuccess ''File deleted successfully'',
           w\<lparr>calls := calls w @ [BlobDelete path, DocDelete i],
             blobs := (blobs w)(path := None),
             docs := filter (\<lambda>d. fst d \<noteq> i) (docs w)\<rparr>)"
  using assms
  by (simp add: delete_file_def and_then_def blob_delete_def doc_delete_def log_call_def Let_def)

text \<open>
  Claim C4. When the blob deletion fails (a fault of the store, or no blob at
  \<^verbatim>\<open>storage_path\<close>), \<^verbatim>\<open>delete_file\<close> returns a failure, the catalog delete is never
  called, the documents are what they were, and so is the listing.
\<close>

theorem failed_blob_delete_keeps_record:
  assumes "fault w (BlobDelete path) \<noteq> None \<or> blobs w path = None"
  shows "(\<exists>e. fst (delete_file i path w) = DeleteFailure e)
         \<and> docs (snd (delete_file i path w)) = docs w
         \<and> calls (snd (delete_file i path w)) = calls w @ [BlobDelete path]
         \<and> fst (get_all_files (snd (delete_file i path w))) = fst (get_all_files w)"
proof -
  obtain e where d: "delete_file i path w = (DeleteFailure e, w\<lparr>calls := calls w @ [BlobDelete path]\<rparr>)"
    using delete_blob_fails [OF assms] by blast
  have "fst (get_all_files (w\<lparr>calls := calls w @ [BlobDelete path]\<rparr>)) = fst (get_all_files w)"
    by (rule listing_depends) simp_all
  with d show ?thesis by simp
qed

text \<open>
  Claim C7. When the listing query raises, \<^verbatim>\<open>get_all_files\<close> returns the empty list,
  which is also what it returns on an empty catalog without any fault: the two cannot be
  told apart by the result.
\<close>

theorem failed_listing_is_empty:
  assumes "fault w DocStream \<noteq> None"
  shows "fst (get_all_files w) = []
         \<and> fst (get_all_files w) = fst (get_all_files (w\<lparr>docs := [], fault := \<lambda>c. None\<rparr>))"
proof -
  obtain e where "fault w DocStream = Some e"
    using assms by blast
  then have "fst (get_all_files w) = []"
    by (rule get_all_files_fails)
  moreover have "fst (get_all_files (w\<lparr>docs := [], fault := \<lambda>c. None\<rparr>)) = []"
    by (simp add: get_all_files_ok order_by_uploaded_at_desc_def)
  ultimately show ?thesis by simp
qed

lemma upload_calls_prefix:
  assumes "uf_size f \<le> MAX_FILE_SIZE_BYTES"
  shows "\<exists>n>0. calls (snd (upload_file f w)) = calls w @ take n (upload_calls f w)"
proof (cases f w rule: upload_file_cases)
  case too_large
  with assms show ?thesis by simp
next
  case (upload_fails e)
  then show ?thesis by (intro exI [of _ 1]) simp
next
  case (make_public_fails e)
  then show ?thesis by (intro exI [of _ 2]) simp
next
  case (public_url_fails e)
  then show ?thesis by (intro exI [of _ 3]) simp
next
  case (doc_set_fails e)
  then show ?thesis by (intro exI [of _ 4]) (simp add: upload_calls_def)
next
  case succeeds
  then show ?thesis by (intro exI [of _ 4]) (simp add: upload_calls_def)
qed

lemma upload_fault_fails:
  assumes "fault w (BlobUpload (upload_path f w)) \<noteq> None
           \<or> fault w (BlobMakePublic (upload_path f w)) \<noteq> None
           \<or> fault w (BlobPublicUrl (upload_path f w)) \<noteq> None
           \<or> fault w (DocSet (next_id w)) \<noteq> None"
  shows "\<exists>e. fst (upload_file f w) = UploadFailure e"
  using assms by (cases f w rule: upload_file_cases) simp_all

lemma upload_failure_listing:
  assumes "fst (upload_file f w) = UploadFailure e"
  shows "fst (get_all_files (snd (upload_file f w))) = fst (get_all_files w)"
  using upload_failure [OF assms] by (rule listing_depends)

lemma upload_insert_fails:
  assumes "fault w (BlobUpload (upload_path f w)) = None"
    and "fault w (BlobMakePublic (upload_path f w)) = None"
    and "fault w (BlobPublicUrl (upload_path f w)) = None"
    and "fault w (DocSet (next_id w)) = Some e"
    and "uf_size f \<le> MAX_FILE_SIZE_BYTES"
  shows "fst (upload_file f w) = UploadFailure e"
    and "blobs (snd (upload_file f w)) (upload_path f w) = Some (stored f True)"
  using assms by (cases f w rule: upload_file_cases; simp)+

text \<open>
  Claim C2. The client calls of an upload are a prefix of: blob upload, make public,
  public URL, document set; so the blob write comes strictly before the metadata
  insert. If any of the four raises, the result is a failure; a failure leaves the
  documents and the listing as they were; and when it is the insert that raises, the
  blob has been written and no document has.
\<close>

theorem failed_upload_writes_no_record:
  assumes "uf_size f \<le> MAX_FILE_SIZE_BYTES"
  shows "(\<exists>n>0. calls (snd (upload_file f w)) = calls w @
            take n [BlobUpload (upload_path f w), BlobMakePublic (upload_path f w),
                    BlobPublicUrl (upload_path f w), DocSet (next_id w)])
    \<and> (fault w (BlobUpload (upload_path f w)) \<noteq> None
         \<or> fault w (BlobMakePublic (upload_path f w)) \<noteq> None
         \<or> fault w (BlobPublicUrl (upload_path f w)) \<noteq> None
         \<or> fault w (DocSet (next_id w)) \<noteq> None
        \<longrightarrow> (\<exists>e. fst (upload_file f w) = UploadFailure e))
    \<and> (\<forall>e. fst (upload_file f w) = UploadFailure e
        \<longrightarrow> docs (snd (upload_file f w)) = docs w
            \<and> fst (get_all_files (snd (upload_file f w))) = fst (get_all_files w))
    \<and> (\<forall>e. fault w (BlobUpload (upload_path f w)) = None
           \<and> fault w (BlobMakePublic (upload_path f w)) = None
           \<and> fault w (BlobPublicUrl (upload_path f w)) = None
           \<and> fault w (DocSet (next_id w)) = Some e
        \<longrightarrow> fst (upload_file f w) = UploadFailure e
            \<and> map_option content (blobs (snd (upload_file f w)) (upload_path f w))
                = Some (uf_getvalue f)
            \<and> docs (snd (upload_file f w)) = docs w)"
proof (intro conjI allI impI)
  show "\<exists>n>0. calls (snd (upload_file f w)) = calls w @
            take n [BlobUpload (upload_path f w), BlobMakePublic (upload_path f w),
                    BlobPublicUrl (upload_path f w), DocSet (next_id w)]"
    using upload_calls_prefix [OF assms, of w] by (simp only: upload_calls_def)
next
  assume "fault w (BlobUpload (upload_path f w)) \<noteq> None
         \<or> fault w (BlobMakePublic (upload_path f w)) \<noteq> None
         \<or> fault w (BlobPublicUrl (upload_path f w)) \<noteq> None
         \<or> fault w (DocSet (next_id w)) \<noteq> None"
  then show "\<exists>e. fst (upload_file f w) = UploadFailure e"
    by (rule upload_fault_fails)
next
  fix e assume "fst (upload_file f w) = UploadFailure e"
  then show "docs (snd (upload_file f w)) = docs w"
    and "fst (get_all_files (snd (upload_file f w))) = fst (get_all_files w)"
    by (rule upload_failure(1), rule upload_failure_listing)
next
  fix e
  assume a: "fault w (BlobUpload (upload_path f w)) = None
           \<and> fault w (BlobMakePublic (upload_path f w)) = None
           \<and> fault w (BlobPublicUrl (upload_path f w)) = None
           \<and> fault w (DocSet (next_id w)) = Some e"
  then have r: "fst (upload_file f w) = UploadFailure e"
    and b: "blobs (snd (upload_file f w)) (upload_path f w) = Some (stored f True)"
    using upload_insert_fails [of w f e] assms by simp_all
  show "fst (upload_file f w) = UploadFailure e" by (rule r)
  show "map_option content (blobs (snd (upload_file f w)) (upload_path f w)) = Some (uf_getvalue f)"
    by (simp add: b stored_def)
  show "docs (snd (upload_file f w)) = docs w"
    using r by (rule upload_failure(1))
qed

lemma upload_without_fault_blobs:
  assumes "uf_size f \<le> MAX_FILE_SIZE_BYTES" and "\<And>c. fault w c = None"
  shows "blobs (snd (upload_file f w)) = (blobs w)(upload_path f w \<mapsto> stored f True)"
  using assms by (cases f w rule: upload_file_cases; simp)

lemma example_catalog_simps:
  "docs example_catalog = [(''x'', example_metadata)]"
  "fault example_catalog c = None"
  "blobs example_catalog ''uploads/missing'' = None"
proof -
  have le: "uf_size example_file \<le> MAX_FILE_SIZE_BYTES"
    by (simp add: example_files max_bytes)
  have m: "metadata_of example_file example_world = example_metadata"
    using example_metadata_of [of example_file]
    by (simp add: example_files round2_values example_metadata_size)
  show "docs example_catalog = [(''x'', example_metadata)]"
    unfolding example_catalog_def
    using upload_without_fault(3) [OF le example_world_simps(1)]
    by (simp add: m example_world_simps)
  show "fault example_catalog c = None"
    unfolding example_catalog_def by (simp add: upload_frame example_world_simps)
  have "blobs example_world = Map.empty"
    by (simp add: example_world_def)
  then show "blobs example_catalog ''uploads/missing'' = None"
    unfolding example_catalog_def
    using upload_without_fault_blobs [OF le example_world_simps(1)]
    by (simp add: example_path example_files)
qed

lemma example_listing:
  "fst (get_all_files example_catalog) = [with_id (''x'', example_metadata)]"
  by (simp add: get_all_files_ok example_catalog_simps order_by_uploaded_at_desc_def)

text \<open>Scenario D: deleting a path that holds no blob leaves the record of id \<open>x\<close> listed.\<close>

theorem failed_blob_delete_keeps_record_witness:
  "blobs example_catalog ''uploads/missing'' = None
   \<and> (\<exists>e. fst (delete_file ''x'' ''uploads/missing'' example_catalog) = DeleteFailure e)
   \<and> fst (get_all_files (snd (delete_file ''x'' ''uploads/missing'' example_catalog)))
       = [with_id (''x'', example_metadata)]"
  using failed_blob_delete_keeps_record [of example_catalog "''uploads/missing''" "''x''"]
  by (simp add: example_catalog_simps example_listing)

text \<open>A catalog of one document lists as empty while the query fails.\<close>

theorem failed_listing_is_empty_witness:
  "fault (example_catalog\<lparr>fault := unavailable DocStream\<rparr>) DocStream \<noteq> None
   \<and> docs (example_catalog\<lparr>fault := unavailable DocStream\<rparr>) = [(''x'', example_metadata)]
   \<and> fst (get_all_files (example_catalog\<lparr>fault := unavailable DocStream\<rparr>)) = []"
  using failed_listing_is_empty [of "example_catalog\<lparr>fault := unavailable DocStream\<rparr>"]
  by (simp add: unavailable_def example_catalog_simps)

lemma fault_update_simps:
  "upload_path f (w\<lparr>fault := g\<rparr>) = upload_path f w"
  "next_id (w\<lparr>fault := g\<rparr>) = next_id w"
  by (simp_all add: upload_path_def next_id_def)

text \<open>An upload whose insert fails: the blob is left, the catalog stays empty.\<close>

theorem failed_upload_writes_no_record_witness:
  "uf_size example_file \<le> MAX_FILE_SIZE_BYTES
   \<and> fault (example_world\<lparr>fault := unavailable (DocSet ''x'')\<rparr>) (DocSet ''x'')
       = Some ''503 Service Unavailable''
   \<and> fst (upload_file example_file (example_world\<lparr>fault := unavailable (DocSet ''x'')\<rparr>))
       = UploadFailure ''503 Service Unavailable''
   \<and> map_option content (blobs (snd (upload_file example_file
          (example_world\<lparr>fault := unavailable (DocSet ''x'')\<rparr>))) ''uploads/20240102_030405_a.txt'')
       = Some [104, 101, 108, 108, 111]
   \<and> docs (snd (upload_file example_file (example_world\<lparr>fault := unavailable (DocSet ''x'')\<rparr>))) = []
   \<and> fst (get_all_files (snd (upload_file example_file
          (example_world\<lparr>fault := unavailable (DocSet ''x'')\<rparr>)))) = []"
proof -
  let ?w = "example_world\<lparr>fault := unavailable (DocSet ''x'')\<rparr>"
  have le: "uf_size example_file \<le> MAX_FILE_SIZE_BYTES"
    by (simp add: example_files max_bytes)
  have l: "fst (get_all_files ?w) = []"
    by (simp add: get_all_files_ok unavailable_def example_world_simps order_by_uploaded_at_desc_def)
  show ?thesis
    using failed_upload_writes_no_record [OF le, of ?w] le l
    by (simp add: fault_update_simps example_path example_files example_world_simps unavailable_def)
qed


subsection \<open>Bootstrap\<close>

lemma initialize_when_initialized:
  "initialized s \<Longrightarrow> initialize_firebase s = (Inr (), s)"
  by (simp add: initialize_firebase_def)

lemma initialize_missing:
  assumes "\<not> initialized s"
    and "falsy (environ s ''FIREBASE_CREDENTIALS_PATH'') \<or> falsy (environ s ''FIREBASE_STORAGE_BUCKET'')"
  shows "initialize_firebase s = (Inl missing_configuration, s)"
  using assms by (simp add: initialize_firebase_def Let_def)

lemma initialize_success_sets_flag:
  assumes "fst (initialize_firebase s) = Inr ()"
  shows "initialized (snd (initialize_firebase s))"
proof (cases "initialized s")
  case True
  then show ?thesis by (simp add: initialize_when_initialized)
next
  case False
  with assms show ?thesis
    by (simp add: initialize_firebase_def Let_def load_certificate_def initialize_app_def
        split: if_splits option.splits)
qed

text \<open>
  Claim C9. A first call to \<^verbatim>\<open>initialize_firebase\<close> with either environment value absent
  raises the configuration error before any SDK call and changes nothing; and once a call
  has succeeded, every later call returns at once and changes nothing, whatever the
  environment has become.
\<close>

theorem initialize_fails_fast_and_is_idempotent:
  "(\<not> initialized s
      \<and> (environ s ''FIREBASE_CREDENTIALS_PATH'' = None \<or> environ s ''FIREBASE_STORAGE_BUCKET'' = None)
     \<longrightarrow> initialize_firebase s = (Inl missing_configuration, s)
         \<and> sdk_calls (snd (initialize_firebase s)) = sdk_calls s)
   \<and> (fst (initialize_firebase s) = Inr ()
     \<longrightarrow> (\<forall>env. initialize_firebase ((snd (initialize_firebase s))\<lparr>environ := env\<rparr>)
                  = (Inr (), (snd (initialize_firebase s))\<lparr>environ := env\<rparr>)))"
proof (intro conjI impI allI)
  assume a: "\<not> initialized s
      \<and> (environ s ''FIREBASE_CREDENTIALS_PATH'' = None \<or> environ s ''FIREBASE_STORAGE_BUCKET'' = None)"
  then have "falsy (environ s ''FIREBASE_CREDENTIALS_PATH'') \<or> falsy (environ s ''FIREBASE_STORAGE_BUCKET'')"
    by (auto simp: falsy_def)
  with a have r: "initialize_firebase s = (Inl missing_configuration, s)"
    by (simp add: initialize_missing)
  show "initialize_firebase s = (Inl missing_configuration, s)" by (rule r)
  show "sdk_calls (snd (initialize_firebase s)) = sdk_calls s" by (simp add: r)
next
  fix env
  assume "fst (initialize_firebase s) = Inr ()"
  then have "initialized (snd (initialize_firebase s))"
    by (rule initialize_success_sets_flag)
  then show "initialize_firebase ((snd (initialize_firebase s))\<lparr>environ := env\<rparr>)
                  = (Inr (), (snd (initialize_firebase s))\<lparr>environ := env\<rparr>)"
    by (simp add: initialize_when_initialized)
qed

lemma example_initialize:
  "initialize_firebase example_process
     = (Inr (), example_process\<lparr>sdk_calls := [Certificate ''key.json'', InitializeApp ''key.json'' ''bucket''],
          default_app := Some (''key.json'', ''bucket''), initialized := True\<rparr>)"
  by (simp add: initialize_firebase_def example_process_def Let_def falsy_def getenv_value_def
      load_certificate_def initialize_app_def)

text \<open>An empty environment fails; the example environment succeeds, and then stays so.\<close>

theorem initialize_fails_fast_and_is_idempotent_witness:
  "\<not> initialized (example_process\<lparr>environ := Map.empty\<rparr>)
   \<and> environ (example_process\<lparr>environ := Map.empty\<rparr>) ''FIREBASE_CREDENTIALS_PATH'' = None
   \<and> fst (initialize_firebase (example_process\<lparr>environ := Map.empty\<rparr>)) = Inl missing_configuration
   \<and> fst (initialize_firebase example_process) = Inr ()
   \<and> fst (initialize_firebase ((snd (initialize_firebase example_process))\<lparr>environ := Map.empty\<rparr>))
       = Inr ()
   \<and> sdk_calls (snd (initialize_firebase ((snd (initialize_firebase example_process))\<lparr>environ := Map.empty\<rparr>)))
       = [Certificate ''key.json'', InitializeApp ''key.json'' ''bucket'']"
  using initialize_fails_fast_and_is_idempotent [of "example_process\<lparr>environ := Map.empty\<rparr>"]
    initialize_fails_fast_and_is_idempotent [of example_process]
  by (simp add: example_initialize) (simp add: example_process_def)

subsection \<open>Statistics\<close>

lemma round_half_even_near:
  "\<bar>of_int (round_half_even x) - x\<bar> \<le> 1 / 2"
proof -
  have "of_int \<lfloor>x\<rfloor> \<le> x" and "x < of_int \<lfloor>x\<rfloor> + 1"
    by linarith+
  then show ?thesis
    unfolding round_half_even_def Let_def
    by (auto simp: abs_le_iff not_less)
qed

lemma py_round2_rounds: "rounded_2dp x (py_round2 x)"
proof -
  have "\<bar>of_int (round_half_even (x * 100)) - x * 100\<bar> \<le> 1 / 2"
    by (rule round_half_even_near)
  then have "\<bar>py_round2 x - x\<bar> \<le> 1 / 200"
    unfolding py_round2_def by (simp add: abs_le_iff field_simps)
  then show ?thesis
    unfolding rounded_2dp_def by (simp add: py_round2_def)
qed

lemma py_round2_zero: "py_round2 (bytes_to_mb 0) = 0"
  by (simp add: py_round2_mb)

lemma bit_length_bound: "n < 2 ^ k \<Longrightarrow> bit_length n \<le> k"
proof (induction n arbitrary: k rule: bit_length.induct)
  case (1 n)
  show ?case
  proof (cases "n = 0")
    case True
    then show ?thesis by (subst bit_length.simps) simp
  next
    case False
    then obtain j where k: "k = Suc j"
      using "1.prems" by (cases k) auto
    then have "n div 2 < 2 ^ j"
      using "1.prems" by auto
    then have "bit_length (n div 2) \<le> j"
      using "1.IH" False by blast
    with False k show ?thesis
      by (subst bit_length.simps) simp
  qed
qed

lemma round_to_53_exact:
  assumes "\<bar>n\<bar> < 2 ^ 53"
  shows "round_to_53 n = n"
proof -
  have "nat \<bar>n\<bar> < 2 ^ 53"
    using assms by (simp add: nat_less_iff)
  then have "bit_length (nat \<bar>n\<bar>) \<le> 53"
    by (rule bit_length_bound)
  then have "bit_length (nat \<bar>n\<bar>) - 53 = 0"
    by simp
  then have "round_to_53 n = sgn n * \<bar>n\<bar>"
    unfolding round_to_53_def Let_def by simp
  then show ?thesis
    by (simp add: mult_sgn_abs)
qed

lemma true_divide_exact:
  assumes "\<bar>n\<bar> < 2 ^ 53"
  shows "true_divide_mb n = Inr (of_int n / 1048576)"
proof -
  have "of_int \<bar>n\<bar> < (of_int (2 ^ 53) :: rat)"
    using assms by (simp only: of_int_less_iff)
  then have "\<bar>of_int n :: rat\<bar> < 2 ^ 53"
    by simp
  then have "\<bar>of_int n / (1024 * 1024) :: rat\<bar> < 2 ^ 53"
    by (simp add: abs_divide field_simps)
  also have "(2 ^ 53 :: rat) \<le> 2 ^ 1024"
    by (rule power_increasing) simp_all
  finally have "\<not> float_overflow n"
    unfolding float_overflow_def round_to_53_exact [OF assms] by (simp only: not_le)
  then show ?thesis
    by (simp add: true_divide_mb_def round_to_53_exact [OF assms])
qed

lemma py_sum_integers:
  assumes "list_all (\<lambda>v. case v of PyInt n \<Rightarrow> True | _ \<Rightarrow> False) vs"
  shows "py_sum acc vs = Inr (acc + (\<Sum>v\<leftarrow>vs. case v of PyInt n \<Rightarrow> n | _ \<Rightarrow> 0))"
  using assms
proof (induction vs arbitrary: acc)
  case Nil
  then show ?case by simp
next
  case (Cons v vs)
  then show ?case by (cases v) simp_all
qed

lemma py_sum_not_integers:
  assumes "\<not> list_all (\<lambda>v. case v of PyInt n \<Rightarrow> True | _ \<Rightarrow> False) vs"
  shows "py_sum acc vs = Inl TypeError"
  using assms
proof (induction vs arbitrary: acc)
  case Nil
  then show ?case by simp
next
  case (Cons v vs)
  then show ?case by (cases v) simp_all
qed

lemma bit_length_eq:
  "2 ^ k \<le> n \<Longrightarrow> n < 2 ^ Suc k \<Longrightarrow> bit_length n = Suc k"
proof (induction k arbitrary: n)
  case 0
  then have "n = 1" by simp
  then show ?case
    by (simp add: bit_length.simps [of "Suc 0"] bit_length.simps [of 0])
next
  case (Suc k)
  have "2 ^ k \<le> n div 2" and "n div 2 < 2 ^ Suc k"
    using Suc.prems by simp_all
  then have "bit_length (n div 2) = Suc k"
    by (rule Suc.IH)
  moreover have "(0::nat) < 2 ^ Suc k"
    by simp
  then have "n \<noteq> 0"
    using Suc.prems(1) by linarith
  ultimately show ?case
    by (subst bit_length.simps) simp
qed

lemma big_bits: "bit_length 7164846493243439783 = 63"
proof -
  have "bit_length 7164846493243439783 = Suc 62"
    by (rule bit_length_eq) simp_all
  then show ?thesis by simp
qed

lemma big_round: "round_to_53 7164846493243439783 = 7164846493243440128"
  unfolding round_to_53_def Let_def by (simp add: big_bits)


lemma big_quotient: "\<not> float_overflow 7164846493243439783"
proof -
  have "(7164846493243440128 / (1024 * 1024) :: rat) < 2 ^ 53"
    by simp
  also have "(2 ^ 53 :: rat) \<le> 2 ^ 1024"
    by (rule power_increasing) simp_all
  finally show ?thesis
    by (simp add: float_overflow_def big_round)
qed


lemma integer_sizes_values:
  "list_all (\<lambda>v. case v of PyInt n \<Rightarrow> True | _ \<Rightarrow> False) (map get_size_bytes fs) = integer_sizes fs"
  by (induction fs)
    (auto simp: integer_sizes_def get_size_bytes_def split: option.splits py_value.splits)

lemma size_total_values:
  "(\<Sum>v\<leftarrow>map get_size_bytes fs. case v of PyInt n \<Rightarrow> n | _ \<Rightarrow> 0) = size_total fs"
  by (induction fs)
    (auto simp: size_total_def get_size_bytes_def split: option.splits py_value.splits)

lemma py_sum_sizes:
  assumes "integer_sizes fs"
  shows "py_sum 0 (map get_size_bytes fs) = Inr (size_total fs)"
proof -
  have "list_all (\<lambda>v. case v of PyInt n \<Rightarrow> True | _ \<Rightarrow> False) (map get_size_bytes fs)"
    unfolding integer_sizes_values by (rule assms)
  then have "py_sum 0 (map get_size_bytes fs)
      = Inr (0 + (\<Sum>v\<leftarrow>map get_size_bytes fs. case v of PyInt n \<Rightarrow> n | _ \<Rightarrow> 0))"
    by (rule py_sum_integers)
  then show ?thesis
    by (simp only: size_total_values add_0)
qed

lemma py_sum_sizes_error:
  assumes "\<not> integer_sizes fs"
  shows "py_sum 0 (map get_size_bytes fs) = Inl TypeError"
proof -
  have "\<not> list_all (\<lambda>v. case v of PyInt n \<Rightarrow> True | _ \<Rightarrow> False) (map get_size_bytes fs)"
    unfolding integer_sizes_values by (rule assms)
  then show ?thesis
    by (rule py_sum_not_integers)
qed

lemma stats_try_type_error:
  "\<not> integer_sizes fs \<Longrightarrow> stats_try fs = Inl TypeError"
  by (simp add: stats_try_def py_sum_sizes_error)

lemma stats_try_overflow:
  "integer_sizes fs \<Longrightarrow> float_overflow (size_total fs) \<Longrightarrow> stats_try fs = Inl OverflowError"
  by (simp add: stats_try_def py_sum_sizes true_divide_mb_def)

lemma stats_try_ok:
  "integer_sizes fs \<Longrightarrow> \<not> float_overflow (size_total fs) \<Longrightarrow>
     stats_try fs = Inr \<lparr>total_files = length fs, total_size_bytes = size_total fs,
       total_size_mb = py_round2 (of_int (round_to_53 (size_total fs)) / 1048576)\<rparr>"
  by (simp add: stats_try_def py_sum_sizes true_divide_mb_def)

lemma stats_try_exact:
  assumes "integer_sizes fs" and "\<bar>size_total fs\<bar> < 2 ^ 53"
  shows "stats_try fs = Inr \<lparr>total_files = length fs, total_size_bytes = size_total fs,
       total_size_mb = py_round2 (of_int (size_total fs) / 1048576)\<rparr>"
  using assms(1)
  by (simp add: stats_try_def py_sum_sizes true_divide_exact [OF assms(2)])

lemma stats_unfold:
  "fst (get_storage_stats w) =
     (case stats_try (fst (get_all_files w)) of
        Inl e \<Rightarrow> \<lparr>total_files = 0, total_size_bytes = 0, total_size_mb = 0\<rparr>
      | Inr stats \<Rightarrow> stats)"
  by (simp add: get_storage_stats_def split_beta split: sum.split)

lemma stats_try_empty:
  "stats_try [] = Inr \<lparr>total_files = 0, total_size_bytes = 0, total_size_mb = 0\<rparr>"
proof -
  have "stats_try [] = Inr \<lparr>total_files = length ([] :: file_data list),
      total_size_bytes = size_total [],
      total_size_mb = py_round2 (of_int (size_total []) / 1048576)\<rparr>"
    by (rule stats_try_exact) (simp_all add: integer_sizes_def size_total_def)
  then show ?thesis
    using py_round2_zero by (simp add: size_total_def bytes_to_mb_def)
qed

lemma size_bytes_with_id: "size_bytes (with_id d) = size_bytes (snd d)"
  by (simp add: with_id_def metadata.defs file_data.defs)

lemma size_total_listing:
  assumes "fault w DocStream = None"
  shows "size_total (fst (get_all_files w))
          = (\<Sum>d\<leftarrow>docs w. case size_bytes (snd d) of Some (PyInt n) \<Rightarrow> n | v \<Rightarrow> 0)"
proof -
  let ?g = "\<lambda>d. case size_bytes (snd d) of Some (PyInt n) \<Rightarrow> n | v \<Rightarrow> (0::int)"
  have "mset (order_by_uploaded_at_desc (docs w)) = mset (docs w)"
    by (simp add: order_by_uploaded_at_desc_def)
  then have "mset (map ?g (order_by_uploaded_at_desc (docs w))) = mset (map ?g (docs w))"
    by (metis mset_map)
  then have "sum_list (map ?g (order_by_uploaded_at_desc (docs w))) = sum_list (map ?g (docs w))"
    by (metis sum_mset_sum_list)
  then show ?thesis
    by (simp add: size_total_def get_all_files_ok [OF assms] comp_def size_bytes_with_id)
qed

lemma integer_sizes_listing:
  assumes "fault w DocStream = None"
  shows "integer_sizes (fst (get_all_files w))
          = list_all (\<lambda>d. case size_bytes (snd d) of None \<Rightarrow> True | Some (PyInt n) \<Rightarrow> True
                            | Some v \<Rightarrow> False) (docs w)"
  by (simp add: integer_sizes_def get_all_files_ok [OF assms] order_by_uploaded_at_desc_def
      list_all_iff size_bytes_with_id)

lemma length_listing:
  assumes "fault w DocStream = None"
  shows "length (fst (get_all_files w)) = length (docs w)"
  by (simp add: get_all_files_ok [OF assms] order_by_uploaded_at_desc_def)

text \<open>
  Claim C5, as amended. Let the listing be what \<^verbatim>\<open>get_storage_stats\<close> obtains from
  \<^verbatim>\<open>get_all_files\<close>. When every \<^verbatim>\<open>size_bytes\<close> it holds is an integer and their sum is
  below \<open>2 ^ 53\<close> in magnitude, the statistics are the fold of the listing: the number
  of listed files, the sum of \<^verbatim>\<open>size_bytes\<close> with an absent one counted as 0, and that
  sum divided by 1,048,576 and rounded to two decimal places. For a larger sum that
  does not overflow a float, the count and the sum are still those, and
  \<^verbatim>\<open>total_size_mb\<close> is the rounding of the float quotient. An empty listing, and so a
  listing that failed, gives three zeros. So does a listing that holds a \<^verbatim>\<open>size_bytes\<close>
  which is present but not a number, or a sum whose quotient overflows: the
  \<^verbatim>\<open>except\<close> clause answers. When the query does not fail, the count and the sum are
  those of the documents of the catalog.
\<close>

theorem stats_fold_integer_sizes:
  fixes w :: world
  defines "L \<equiv> fst (get_all_files w)" and "S \<equiv> fst (get_storage_stats w)"
  shows "(integer_sizes L \<and> \<bar>size_total L\<bar> < 2 ^ 53 \<longrightarrow>
            total_files S = length L
            \<and> total_size_bytes S = size_total L
            \<and> total_size_mb S = py_round2 (of_int (total_size_bytes S) / 1048576)
            \<and> rounded_2dp (of_int (total_size_bytes S) / 1048576) (total_size_mb S))
       \<and> (integer_sizes L \<and> \<not> float_overflow (size_total L) \<longrightarrow>
            total_files S = length L
            \<and> total_size_bytes S = size_total L
            \<and> total_size_mb S = py_round2 (of_int (round_to_53 (size_total L)) / 1048576))
       \<and> (L = [] \<longrightarrow> S = \<lparr>total_files = 0, total_size_bytes = 0, total_size_mb = 0\<rparr>)
       \<and> (fault w DocStream \<noteq> None \<longrightarrow>
            S = \<lparr>total_files = 0, total_size_bytes = 0, total_size_mb = 0\<rparr>)
       \<and> (\<not> integer_sizes L \<or> float_overflow (size_total L) \<longrightarrow>
            S = \<lparr>total_files = 0, total_size_bytes = 0, total_size_mb = 0\<rparr>)
       \<and> (fault w DocStream = None \<longrightarrow>
            length L = length (docs w)
            \<and> size_total L = (\<Sum>d\<leftarrow>docs w. case size_bytes (snd d) of
                                  Some (PyInt n) \<Rightarrow> n | v \<Rightarrow> 0))"
proof -
  have S: "S = (case stats_try L of
        Inl e \<Rightarrow> \<lparr>total_files = 0, total_size_bytes = 0, total_size_mb = 0\<rparr>
      | Inr stats \<Rightarrow> stats)"
    unfolding S_def L_def by (rule stats_unfold)
  have exact: "integer_sizes L \<and> \<bar>size_total L\<bar> < 2 ^ 53 \<longrightarrow>
            total_files S = length L
            \<and> total_size_bytes S = size_total L
            \<and> total_size_mb S = py_round2 (of_int (total_size_bytes S) / 1048576)
            \<and> rounded_2dp (of_int (total_size_bytes S) / 1048576) (total_size_mb S)"
    using py_round2_rounds by (simp add: S stats_try_exact)
  have float: "integer_sizes L \<and> \<not> float_overflow (size_total L) \<longrightarrow>
            total_files S = length L
            \<and> total_size_bytes S = size_total L
            \<and> total_size_mb S = py_round2 (of_int (round_to_53 (size_total L)) / 1048576)"
    by (simp add: S stats_try_ok)
  have empty: "L = [] \<longrightarrow> S = \<lparr>total_files = 0, total_size_bytes = 0, total_size_mb = 0\<rparr>"
    by (simp add: S stats_try_empty)
  have "fault w DocStream \<noteq> None \<longrightarrow> L = []"
    unfolding L_def using get_all_files_fails by blast
  with empty have failing: "fault w DocStream \<noteq> None \<longrightarrow>
            S = \<lparr>total_files = 0, total_size_bytes = 0, total_size_mb = 0\<rparr>"
    by blast
  have raised: "\<not> integer_sizes L \<or> float_overflow (size_total L) \<longrightarrow>
            S = \<lparr>total_files = 0, total_size_bytes = 0, total_size_mb = 0\<rparr>"
  proof (cases "integer_sizes L")
    case True
    then show ?thesis by (auto simp: S stats_try_overflow)
  next
    case False
    then show ?thesis by (simp add: S stats_try_type_error)
  qed
  have catalog: "fault w DocStream = None \<longrightarrow>
            length L = length (docs w)
            \<and> size_total L = (\<Sum>d\<leftarrow>docs w. case size_bytes (snd d) of
                                  Some (PyInt n) \<Rightarrow> n | v \<Rightarrow> 0)"
    unfolding L_def by (simp add: length_listing size_total_listing)
  from exact float empty failing raised catalog show ?thesis
    by (intro conjI)
qed

lemma py_round2_quotient:
  "py_round2 (of_int n / 1048576) =
     of_int (if 2 * ((n * 100) mod 1048576) < 1048576 then (n * 100) div 1048576
             else if 2 * ((n * 100) mod 1048576) > 1048576 then (n * 100) div 1048576 + 1
             else if even ((n * 100) div 1048576) then (n * 100) div 1048576
             else (n * 100) div 1048576 + 1) / 100"
  using py_round2_mb [of n] by (simp add: bytes_to_mb_def)

text \<open>
  Two documents, one of five bytes and one without \<^verbatim>\<open>size_bytes\<close>; and a listing that
  fails.
\<close>

theorem stats_fold_integer_sizes_witness:
  "fault mixed_catalog DocStream = None
   \<and> integer_sizes (fst (get_all_files mixed_catalog))
   \<and> \<bar>size_total (fst (get_all_files mixed_catalog))\<bar> < 2 ^ 53
   \<and> total_files (fst (get_storage_stats mixed_catalog)) = 2
   \<and> total_size_bytes (fst (get_storage_stats mixed_catalog)) = 5
   \<and> total_size_mb (fst (get_storage_stats mixed_catalog)) = 0
   \<and> fault (example_catalog\<lparr>fault := unavailable DocStream\<rparr>) DocStream \<noteq> None
   \<and> fst (get_storage_stats (example_catalog\<lparr>fault := unavailable DocStream\<rparr>))
       = \<lparr>total_files = 0, total_size_bytes = 0, total_size_mb = 0\<rparr>"
proof -
  let ?F = "example_catalog\<lparr>fault := unavailable DocStream\<rparr>"
  have sz: "size_bytes example_metadata = Some (PyInt 5)"
    by (simp add: example_metadata_def)
  have ok: "fault mixed_catalog DocStream = None"
    by (simp add: mixed_catalog_def example_catalog_simps)
  have bad: "fault ?F DocStream \<noteq> None"
    by (simp add: unavailable_def)
  have ints: "integer_sizes (fst (get_all_files mixed_catalog))"
    unfolding integer_sizes_listing [OF ok] by (simp add: mixed_catalog_def sz)
  have tot: "size_total (fst (get_all_files mixed_catalog)) = 5"
    unfolding size_total_listing [OF ok] by (simp add: mixed_catalog_def sz)
  have len: "length (fst (get_all_files mixed_catalog)) = 2"
    unfolding length_listing [OF ok] by (simp add: mixed_catalog_def)
  have small: "\<bar>size_total (fst (get_all_files mixed_catalog))\<bar> < 2 ^ 53"
    unfolding tot by simp
  from stats_fold_integer_sizes [of mixed_catalog] ints small
  have n: "total_files (fst (get_storage_stats mixed_catalog))
             = length (fst (get_all_files mixed_catalog))"
    and b: "total_size_bytes (fst (get_storage_stats mixed_catalog))
             = size_total (fst (get_all_files mixed_catalog))"
    and m: "total_size_mb (fst (get_storage_stats mixed_catalog))
             = py_round2 (of_int (total_size_bytes (fst (get_storage_stats mixed_catalog))) / 1048576)"
    by blast+
  from stats_fold_integer_sizes [of ?F] bad
  have z: "fst (get_storage_stats ?F) = \<lparr>total_files = 0, total_size_bytes = 0, total_size_mb = 0\<rparr>"
    by blast
  have mb: "py_round2 (of_int 5 / 1048576) = 0"
    unfolding py_round2_quotient by simp
  have m0: "total_size_mb (fst (get_storage_stats mixed_catalog)) = 0"
    unfolding m b tot by (rule mb)
  show ?thesis
    using ok ints small bad z by (simp add: n len b tot m0)
qed

text \<open>
  Claim C5 as stated fails. A catalog of one document whose \<^verbatim>\<open>size_bytes\<close> is null is
  listed as one record, and its statistics are three zeros. And for one document of
  7,164,846,493,243,439,783 bytes \<^verbatim>\<open>total_size_mb\<close> is 6832930081599.66, while the
  quotient rounded to two decimal places is 6832930081599.65.
\<close>

theorem stats_zero_for_listed_record:
  "length (fst (get_all_files null_size_catalog)) = 1
   \<and> fst (get_storage_stats null_size_catalog)
       = \<lparr>total_files = 0, total_size_bytes = 0, total_size_mb = 0\<rparr>
   \<and> total_size_bytes (fst (get_storage_stats huge_catalog)) = 7164846493243439783
   \<and> total_size_mb (fst (get_storage_stats huge_catalog)) = 683293008159966 / 100
   \<and> py_round2 (7164846493243439783 / 1048576) = 683293008159965 / 100"
proof -
  have ok: "fault null_size_catalog DocStream = None" "fault huge_catalog DocStream = None"
    by (simp_all add: null_size_catalog_def huge_catalog_def example_catalog_simps)
  have len: "length (fst (get_all_files null_size_catalog)) = 1"
    unfolding length_listing [OF ok(1)] by (simp add: null_size_catalog_def)
  have "\<not> integer_sizes (fst (get_all_files null_size_catalog))"
    unfolding integer_sizes_listing [OF ok(1)] by (simp add: null_size_catalog_def)
  then have zero: "fst (get_storage_stats null_size_catalog)
       = \<lparr>total_files = 0, total_size_bytes = 0, total_size_mb = 0\<rparr>"
    by (simp add: stats_unfold stats_try_type_error)
  have ints: "integer_sizes (fst (get_all_files huge_catalog))"
    unfolding integer_sizes_listing [OF ok(2)] by (simp add: huge_catalog_def)
  have tot: "size_total (fst (get_all_files huge_catalog)) = 7164846493243439783"
    unfolding size_total_listing [OF ok(2)] by (simp add: huge_catalog_def)
  have "stats_try (fst (get_all_files huge_catalog))
          = Inr \<lparr>total_files = length (fst (get_all_files huge_catalog)),
                 total_size_bytes = size_total (fst (get_all_files huge_catalog)),
                 total_size_mb = py_round2 (of_int (round_to_53
                    (size_total (fst (get_all_files huge_catalog)))) / 1048576)\<rparr>"
    using ints by (rule stats_try_ok) (simp add: tot big_quotient)
  then have huge: "total_size_bytes (fst (get_storage_stats huge_catalog)) = 7164846493243439783"
    "total_size_mb (fst (get_storage_stats huge_catalog))
       = py_round2 (of_int 7164846493243440128 / 1048576)"
    by (simp_all add: stats_unfold tot big_round)
  have r1: "py_round2 (of_int 7164846493243440128 / 1048576) = 683293008159966 / 100"
    unfolding py_round2_quotient by simp
  have r2: "py_round2 (of_int 7164846493243439783 / 1048576) = 683293008159965 / 100"
    unfolding py_round2_quotient by simp
  show ?thesis
    using len zero huge r1 r2 by simp
qed


subsection \<open>The order of the listing\<close>

lemma order_by_sorted:
  "sorted_wrt (\<lambda>a b. dt_key (uploaded_at (snd a)) \<ge> dt_key (uploaded_at (snd b)))
     (order_by_uploaded_at_desc ds)"
proof -
  have "sorted (map (\<lambda>d. dt_key (uploaded_at (snd d))) (sort_key (\<lambda>d. dt_key (uploaded_at (snd d))) ds))"
    by (rule sorted_sort_key)
  then show ?thesis
    by (simp add: order_by_uploaded_at_desc_def sorted_wrt_rev sorted_map)
qed

lemma uploaded_at_with_id: "uploaded_at (with_id d) = uploaded_at (snd d)"
  by (simp add: with_id_def metadata.defs file_data.defs)

lemma doc_id_with_id: "doc_id (with_id d) = fst d"
  by (simp add: with_id_def metadata.defs file_data.defs)

lemma listing_newest_first:
  assumes "fault w DocStream = None"
  shows "newest_first (fst (get_all_files w))"
  using order_by_sorted [of "docs w"]
  by (simp add: newest_first_def get_all_files_ok [OF assms] sorted_wrt_map uploaded_at_with_id)

lemma listing_complete:
  assumes "fault w DocStream = None"
  shows "mset (fst (get_all_files w)) = mset (map with_id (docs w))"
  by (simp add: get_all_files_ok [OF assms] order_by_uploaded_at_desc_def)

lemma order_by_increasing:
  assumes "strictly_increasing ds"
  shows "order_by_uploaded_at_desc ds = rev ds"
proof -
  have "sorted_wrt (\<lambda>a b. dt_key (uploaded_at (snd a)) \<le> dt_key (uploaded_at (snd b))) ds"
    using assms unfolding strictly_increasing_def
    by (rule sorted_wrt_mono_rel [rotated]) simp
  then have "sorted (map (\<lambda>d. dt_key (uploaded_at (snd d))) ds)"
    by (simp add: sorted_map)
  then have "sort_key (\<lambda>d. dt_key (uploaded_at (snd d))) ds = ds"
    by (rule sort_key_id_if_sorted)
  then show ?thesis
    by (simp add: order_by_uploaded_at_desc_def)
qed

lemma order_by_filter:
  "filter P (order_by_uploaded_at_desc ds) = order_by_uploaded_at_desc (filter P ds)"
  by (simp add: order_by_uploaded_at_desc_def filter_sort flip: rev_filter)

lemma set_doc_fresh:
  "i \<notin> fst ` set ds \<Longrightarrow> set_doc i m ds = ds @ [(i, m)]"
  by (induction ds) auto

lemma upload_all_fault: "fault (snd (upload_all fs w)) = fault w"
  by (induction fs arbitrary: w) (simp_all add: split_beta upload_frame)

lemma upload_all_docs:
  assumes "distinct (map fst (written (fst (upload_all fs w))))"
    and "fst ` set (written (fst (upload_all fs w))) \<inter> fst ` set (docs w) = {}"
  shows "docs (snd (upload_all fs w)) = docs w @ written (fst (upload_all fs w))"
  using assms
proof (induction fs arbitrary: w)
  case Nil
  then show ?case by simp
next
  case (Cons f fs)
  let ?w1 = "snd (upload_file f w)"
  let ?rs = "fst (upload_all fs ?w1)"
  show ?case
  proof (cases "fst (upload_file f w)")
    case (UploadSuccess m i)
    have wr: "written (fst (upload_all (f # fs) w)) = (i, m) # written ?rs"
      by (simp add: split_beta UploadSuccess)
    have fresh: "i \<notin> fst ` set (docs w)"
      using Cons.prems(2) unfolding wr by auto
    have d1: "docs ?w1 = docs w @ [(i, m)]"
      using upload_success(4) [OF UploadSuccess] fresh by (simp add: set_doc_fresh)
    have "distinct (map fst (written ?rs))" and "i \<notin> fst ` set (written ?rs)"
      using Cons.prems(1) unfolding wr by auto
    moreover have "fst ` set (written ?rs) \<inter> fst ` set (docs w) = {}"
      using Cons.prems(2) unfolding wr by auto
    ultimately have "docs (snd (upload_all fs ?w1)) = docs ?w1 @ written ?rs"
      by (intro Cons.IH) (auto simp: d1)
    then show ?thesis
      by (simp add: split_beta d1 UploadSuccess)
  next
    case (UploadFailure e)
    have wr: "written (fst (upload_all (f # fs) w)) = written ?rs"
      by (simp add: split_beta UploadFailure)
    have d1: "docs ?w1 = docs w"
      using UploadFailure by (rule upload_failure(1))
    have "docs (snd (upload_all fs ?w1)) = docs ?w1 @ written ?rs"
      using Cons.prems unfolding wr by (intro Cons.IH) (simp_all add: d1)
    then show ?thesis
      by (simp add: split_beta d1 UploadFailure)
  qed
qed

text \<open>
  Claim C6. When the query does not fail, \<^verbatim>\<open>get_all_files\<close> returns every document of
  the catalog, the latest \<^verbatim>\<open>uploaded_at\<close> first. After a sequence of uploads whose
  successful ones got strictly increasing timestamps (and ids that are new and distinct,
  as the store assigns them), the listing holds those records in exactly the reverse
  order of their upload; on a catalog that was empty before, they are the whole listing.
\<close>

theorem listing_is_newest_first:
  assumes "fault w DocStream = None"
    and "strictly_increasing (written (fst (upload_all fs w)))"
    and "distinct (map fst (written (fst (upload_all fs w))))"
    and "fst ` set (written (fst (upload_all fs w))) \<inter> fst ` set (docs w) = {}"
  shows "mset (fst (get_all_files (snd (upload_all fs w))))
           = mset (map with_id (docs (snd (upload_all fs w))))
         \<and> newest_first (fst (get_all_files (snd (upload_all fs w))))
         \<and> filter (\<lambda>x. doc_id x \<in> fst ` set (written (fst (upload_all fs w))))
              (fst (get_all_files (snd (upload_all fs w))))
            = rev (map with_id (written (fst (upload_all fs w))))
         \<and> (docs w = [] \<longrightarrow> fst (get_all_files (snd (upload_all fs w)))
              = rev (map with_id (written (fst (upload_all fs w)))))"
proof -
  let ?w' = "snd (upload_all fs w)"
  let ?new = "written (fst (upload_all fs w))"
  let ?P = "\<lambda>d. fst d \<in> fst ` set ?new"
  have ok: "fault ?w' DocStream = None"
    using assms(1) by (simp add: upload_all_fault)
  have d: "docs ?w' = docs w @ ?new"
    using assms(3,4) by (rule upload_all_docs)
  have "filter ?P (docs w) = []"
    using assms(4) by (auto simp: filter_empty_conv)
  moreover have "filter ?P ?new = ?new"
    by simp
  ultimately have f: "filter ?P (docs ?w') = ?new"
    by (simp add: d)
  have "filter (\<lambda>x. doc_id x \<in> fst ` set ?new) (fst (get_all_files ?w'))
          = map with_id (filter ?P (order_by_uploaded_at_desc (docs ?w')))"
    by (simp add: get_all_files_ok [OF ok] filter_map comp_def doc_id_with_id)
  also have "\<dots> = map with_id (order_by_uploaded_at_desc ?new)"
    by (simp add: order_by_filter f)
  also have "\<dots> = rev (map with_id ?new)"
    by (simp add: order_by_increasing [OF assms(2)] rev_map)
  finally have new: "filter (\<lambda>x. doc_id x \<in> fst ` set ?new) (fst (get_all_files ?w'))
          = rev (map with_id ?new)" .
  have "docs w = [] \<Longrightarrow> fst (get_all_files ?w') = rev (map with_id ?new)"
    by (simp add: get_all_files_ok [OF ok] d order_by_increasing [OF assms(2)] rev_map)
  then show ?thesis
    using listing_complete [OF ok] listing_newest_first [OF ok] new by blast
qed

lemma upload_without_fault_counters:
  assumes "uf_size f \<le> MAX_FILE_SIZE_BYTES" and "\<And>c. fault w c = None"
  shows "ticks (snd (upload_file f w)) = ticks w + 2"
    and "ids_drawn (snd (upload_file f w)) = ids_drawn w + 1"
  using assms by (cases f w rule: upload_file_cases; simp)+

lemma example_uploads:
  defines "w1 \<equiv> snd (upload_file example_file example_world)"
  defines "w2 \<equiv> snd (upload_file example_file w1)"
  shows "written (fst (upload_all [example_file, example_file, example_file] example_world))
           = [(''x'', metadata_of example_file example_world),
              (''xx'', metadata_of example_file w1),
              (''xxx'', metadata_of example_file w2)]"
    and "uploaded_at (metadata_of example_file example_world) = example_time\<lparr>second := 6\<rparr>"
    and "uploaded_at (metadata_of example_file w1) = example_time\<lparr>second := 8\<rparr>"
    and "uploaded_at (metadata_of example_file w2) = example_time\<lparr>second := 10\<rparr>"
proof -
  have le: "uf_size example_file \<le> MAX_FILE_SIZE_BYTES"
    by (simp add: example_files max_bytes)
  have f0: "\<And>c. fault example_world c = None"
    by (simp add: example_world_simps)
  have f1: "\<And>c. fault w1 c = None"
    unfolding w1_def by (simp add: upload_frame f0)
  have f2: "\<And>c. fault w2 c = None"
    unfolding w2_def by (simp add: upload_frame f1)
  have c0: "ticks example_world = 0" "ids_drawn example_world = 0"
    by (simp_all add: example_world_def)
  have c1: "ticks w1 = 2" "ids_drawn w1 = 1"
    unfolding w1_def by (simp_all add: upload_without_fault_counters [OF le f0] c0)
  have c2: "ticks w2 = 4" "ids_drawn w2 = 2"
    unfolding w2_def by (simp_all add: upload_without_fault_counters [OF le f1] c1)
  have e1: "clock w1 = clock example_world" "auto_id w1 = auto_id example_world"
    unfolding w1_def by (simp_all add: upload_frame)
  have e2: "clock w2 = clock example_world" "auto_id w2 = auto_id example_world"
    unfolding w2_def by (simp_all add: upload_frame e1)
  have ids: "next_id example_world = ''x''" "next_id w1 = ''xx''" "next_id w2 = ''xxx''"
    by (simp_all add: next_id_def c0 c1 c2 e1 e2 eval_nat_numeral) (simp_all add: example_world_def)
  have r0: "fst (upload_file example_file example_world)
              = UploadSuccess (metadata_of example_file example_world) ''x''"
    using upload_without_fault(1) [OF le f0] by (simp add: ids)
  have r1: "fst (upload_file example_file w1) = UploadSuccess (metadata_of example_file w1) ''xx''"
    using upload_without_fault(1) [OF le f1] by (simp add: ids)
  have r2: "fst (upload_file example_file w2) = UploadSuccess (metadata_of example_file w2) ''xxx''"
    using upload_without_fault(1) [OF le f2] by (simp add: ids)
  show "written (fst (upload_all [example_file, example_file, example_file] example_world))
           = [(''x'', metadata_of example_file example_world),
              (''xx'', metadata_of example_file w1),
              (''xxx'', metadata_of example_file w2)]"
    by (simp add: split_beta r0 r1 r2 flip: w1_def w2_def)
  show "uploaded_at (metadata_of example_file example_world) = example_time\<lparr>second := 6\<rparr>"
    by (simp add: metadata_of_def c0) (simp add: example_world_def)
  show "uploaded_at (metadata_of example_file w1) = example_time\<lparr>second := 8\<rparr>"
    by (simp add: metadata_of_def c1 e1) (simp add: example_world_def)
  show "uploaded_at (metadata_of example_file w2) = example_time\<lparr>second := 10\<rparr>"
    by (simp add: metadata_of_def c2 e2) (simp add: example_world_def)
qed

text \<open>Scenario C: three uploads at seconds 6, 8 and 10 are listed as 10, 8, 6.\<close>

theorem listing_is_newest_first_witness:
  "fault example_world DocStream = None
   \<and> docs example_world = []
   \<and> map fst (written (fst (upload_all [example_file, example_file, example_file] example_world)))
       = [''x'', ''xx'', ''xxx'']
   \<and> map (\<lambda>d. second (uploaded_at (snd d)))
        (written (fst (upload_all [example_file, example_file, example_file] example_world)))
       = [6, 8, 10]
   \<and> map doc_id (fst (get_all_files
        (snd (upload_all [example_file, example_file, example_file] example_world))))
       = [''xxx'', ''xx'', ''x'']
   \<and> map (\<lambda>x. second (uploaded_at x)) (fst (get_all_files
        (snd (upload_all [example_file, example_file, example_file] example_world))))
       = [10, 8, 6]"
proof -
  let ?fs = "[example_file, example_file, example_file]"
  let ?new = "written (fst (upload_all ?fs example_world))"
  have inc: "strictly_increasing ?new"
    unfolding example_uploads(1)
    by (simp add: example_uploads(2-4) strictly_increasing_def dt_key_def example_time_def)
  have dist: "distinct (map fst ?new)"
    unfolding example_uploads(1) by simp
  have fresh: "fst ` set ?new \<inter> fst ` set (docs example_world) = {}"
    by (simp add: example_world_simps)
  show ?thesis
    using listing_is_newest_first [OF example_world_simps(1) inc dist fresh]
    unfolding example_uploads(1)
    by (simp add: example_world_simps example_uploads(2-4) doc_id_with_id uploaded_at_with_id
        example_time_def del: upload_all.simps)
qed

subsection \<open>The extension of a name\<close>





























end
